theory Spec2Isabelle
  imports Complex_Main
begin

section \<open>Data model of \<^verbatim>\<open>AuroraSystem\<close> (src/main.py)\<close>

text \<open>
  Python floats are modelled by the rationals: every finite float is a rational number,
  and the program only compares floats, subtracts two clock readings and prints them with
  one decimal.  NaN, the infinities and the negative zero have no counterpart here.
  A decimal literal such as \<open>4.9\<close> stands for the float Python reads from it; the
  comparisons against the integer levels and the one-decimal rendering of the literals
  used below do not depend on the last bit.
\<close>

record location =
  lat :: rat
  lon :: rat

text \<open>
  The \<^verbatim>\<open>email_config\<close> dictionary with the five keys the senders read (a dictionary
  that lacks one of them is outside the model).  The program tests it with
  \<^verbatim>\<open>if not self.email_config\<close>, so \<^verbatim>\<open>None\<close> (and an empty dictionary) count as absent:
  \<open>None\<close> below.
\<close>

record mail_settings =
  from_email :: string
  password :: string
  to_email :: string
  smtp_server :: string
  smtp_port :: int

record AuroraSystem =
  user_location :: location
  kp_threshold :: int
  last_alert_time :: "rat option"
  alert_cooldown :: int
  email_config :: "mail_settings option"

text \<open>\<^verbatim>\<open>AuroraSystem.__init__\<close> (lines 17-22): the location is stored as given.\<close>

definition AuroraSystem_init :: "location \<Rightarrow> mail_settings option \<Rightarrow> AuroraSystem" where
  "AuroraSystem_init loc cfg =
     \<lparr>user_location = loc, kp_threshold = 4, last_alert_time = None,
      alert_cooldown = 3600, email_config = cfg\<rparr>"

datatype py_error = KeyError | RenderError | UnicodeEncodeError

section \<open>Printing numbers\<close>

text \<open>Python's \<^verbatim>\<open>str\<close> of an integer.\<close>

fun str_nat :: "nat \<Rightarrow> string" where
  "str_nat n =
     (if n < 10 then [''0123456789'' ! n]
      else str_nat (n div 10) @ [''0123456789'' ! (n mod 10)])"

declare str_nat.simps [simp del]

definition str_int :: "int \<Rightarrow> string" where
  "str_int i = (if i < 0 then ''-'' @ str_nat (nat (- i)) else str_nat (nat i))"

text \<open>
  The format specification \<^verbatim>\<open>:.1f\<close>: the exact value rounded to one decimal, ties to the
  even digit, with the sign of the value.
\<close>

definition round_half_even :: "rat \<Rightarrow> int" where
  "round_half_even x =
     (let f = \<lfloor>x\<rfloor>; d = x - of_int f
      in if d < 1 / 2 then f
         else if 1 / 2 < d then f + 1
         else if even f then f else f + 1)"

definition fmt_1f :: "rat \<Rightarrow> string" where
  "fmt_1f x =
     (let t = nat (round_half_even (\<bar>x\<bar> * 10))
      in (if x < 0 then ''-'' else '''') @ str_nat (t div 10) @ ''.'' @ str_nat (t mod 10))"

section \<open>The visibility model: \<^verbatim>\<open>calculate_aurora_visibility\<close> (lines 53-65)\<close>

text \<open>The dictionary literal of line 55, in the order it is written.\<close>

definition visibility_map :: "(int \<times> int) list" where
  "visibility_map =
     [(9, 35), (8, 40), (7, 45), (6, 50), (5, 55), (4, 60), (3, 65), (2, 70), (1, 75), (0, 80)]"

text \<open>
  The \<^verbatim>\<open>for\<close> loop of lines 59-62 over the keys still to visit: the first level with
  \<^verbatim>\<open>kp_index >= kp_level\<close> is looked up in the dictionary and ends the loop
  (\<^verbatim>\<open>break\<close>); a loop that runs out keeps the initial \<^verbatim>\<open>visible_latitude\<close>.
\<close>

fun scan_levels :: "(int \<times> int) list \<Rightarrow> int list \<Rightarrow> rat \<Rightarrow> int \<Rightarrow> py_error + int" where
  "scan_levels vm [] kp_index visible_latitude = Inr visible_latitude"
| "scan_levels vm (kp_level # rest) kp_index visible_latitude =
     (if of_int kp_level \<le> kp_index
      then (case map_of vm kp_level of None \<Rightarrow> Inl KeyError | Some v \<Rightarrow> Inr v)
      else scan_levels vm rest kp_index visible_latitude)"

text \<open>
  The result is the tuple \<^verbatim>\<open>(is_visible, status, visible_latitude)\<close>.  The degree sign of
  the status text is its two UTF-8 bytes.
\<close>

definition calculate_aurora_visibility ::
  "AuroraSystem \<Rightarrow> rat \<Rightarrow> py_error + (bool \<times> string \<times> int)" where
  "calculate_aurora_visibility self kp_index =
     (let user_lat = lat (user_location self)
      in case scan_levels visibility_map (rev (sort (map fst visibility_map))) kp_index 80 of
           Inl e \<Rightarrow> Inl e
         | Inr visible_latitude \<Rightarrow>
             (let is_visible = (of_int visible_latitude \<le> user_lat);
                  status = ''Kp='' @ fmt_1f kp_index @ '', Visible south to '' @
                           str_int visible_latitude @ [CHR 0xC2, CHR 0xB0] @ ''N''
              in Inr (is_visible, status, visible_latitude)))"

section \<open>The outside world\<close>

text \<open>
  The program reads the NOAA feed and the clock, writes a map file, prints to the console
  and talks to a mail server.  The world records what each of these calls answers, by the
  ordinal of the call, how many calls were made, and the observable events in order.
  \<^item> \<open>kp_feed w n\<close> is what the \<open>n\<close>-th call of \<^verbatim>\<open>get_kp_index\<close> returns: \<open>None\<close> for
    \<^verbatim>\<open>(None, None)\<close> (bad status, short table, or any exception), or the pair of the index
    and the time tag of the last row (text, or \<open>None\<close> when the row has none).
  \<^item> \<open>clock w n\<close> is the \<open>n\<close>-th reading of \<^verbatim>\<open>time.time()\<close>.
  \<^item> \<open>render_ok w n\<close> tells whether the \<open>n\<close>-th drawing and saving of a map runs through
    or raises.
  \<^item> \<open>smtp_ok w n\<close> tells whether the \<open>n\<close>-th guarded block that builds a message and
    hands it to the mail server runs through or raises.
  \<^item> \<open>strptime\<close> and \<open>strftime\<close> are the two \<^verbatim>\<open>datetime\<close> library calls of
    \<^verbatim>\<open>format_timestamp\<close>, for the fixed formats of lines 47 and 48, on text; each gives
    \<open>None\<close> when the call raises.
  \<^item> \<open>prefix_matches w s\<close> tells, for a \<^verbatim>\<open>str\<close> with a lone surrogate, whether a prefix of it
    matches the format of line 47.
  The time tags of the feed are taken to be text, as the tags of the NOAA table are; a
  tag with a lone surrogate is outside the model of the feed and is considered for
  \<^verbatim>\<open>format_timestamp\<close> alone.
  The strings built from \<^verbatim>\<open>datetime.now()\<close> are only printed and are left out.
\<close>

text \<open>
  A Python \<^verbatim>\<open>str\<close> is modelled by its UTF-8 bytes.  A \<^verbatim>\<open>str\<close> with a lone surrogate (the JSON
  escape \<^verbatim>\<open>\ud800\<close> decodes to one) is no text and has no UTF-8 encoding; it is a value of
  its own kind, given with each lone surrogate as its three surrogatepass bytes.  The
  standard output is taken to encode UTF-8, as the program's own messages need (they hold
  a degree sign and emoji): printing text always goes through, and printing a \<^verbatim>\<open>str\<close> with
  a lone surrogate raises \<^verbatim>\<open>UnicodeEncodeError\<close>.
\<close>

datatype py_str = Text string | Surrogated string

fun text_of :: "py_str \<Rightarrow> string" where
  "text_of (Text s) = s"
| "text_of (Surrogated s) = s"

record datetime =
  year :: nat
  month :: nat
  day :: nat
  hour :: nat
  minute :: nat
  second :: nat

datatype mail_kind = AlertMail | DailyReportMail | StartupMail

datatype event =
    UnableToFetch
  | ConsoleAlert rat string
  | NoAlertNeeded bool rat
  | MapSaved nat rat string bool int
  | EmailSkipped mail_kind
  | SmtpAttempt mail_kind bool

record world =
  kp_feed :: "nat \<Rightarrow> (rat \<times> string option) option"
  kp_calls :: nat
  clock :: "nat \<Rightarrow> rat"
  clock_calls :: nat
  render_ok :: "nat \<Rightarrow> bool"
  renders :: nat
  smtp_ok :: "nat \<Rightarrow> bool"
  smtp_calls :: nat
  strptime :: "string \<Rightarrow> datetime option"
  strftime :: "datetime \<Rightarrow> string option"
  prefix_matches :: "string \<Rightarrow> bool"
  events :: "event list"

definition emit :: "event \<Rightarrow> world \<Rightarrow> world" where
  "emit e w = w\<lparr>events := events w @ [e]\<rparr>"

text \<open>\<^verbatim>\<open>get_kp_index\<close> (lines 24-38).\<close>

definition get_kp_index :: "world \<Rightarrow> (rat \<times> string option) option \<times> world" where
  "get_kp_index w = (kp_feed w (kp_calls w), w\<lparr>kp_calls := Suc (kp_calls w)\<rparr>)"

text \<open>\<^verbatim>\<open>time.time()\<close>.\<close>

definition time_time :: "world \<Rightarrow> rat \<times> world" where
  "time_time w = (clock w (clock_calls w), w\<lparr>clock_calls := Suc (clock_calls w)\<rparr>)"

section \<open>\<^verbatim>\<open>format_timestamp\<close> (lines 40-51)\<close>

text \<open>
  \<^verbatim>\<open>None\<close> and \<^verbatim>\<open>"Unknown"\<close> give \<^verbatim>\<open>"Unknown"\<close>; otherwise the string is parsed and
  printed again inside the \<^verbatim>\<open>try\<close> block.  The \<^verbatim>\<open>except\<close> branch first prints the message
  of the exception (line 50) and then returns the argument itself (line 51).  The print
  stands in the handler, outside the \<^verbatim>\<open>try\<close>: when it raises, the exception leaves the
  function.
  \<^item> On text, every message is text and the print goes through.
  \<^item> A \<^verbatim>\<open>str\<close> with a lone surrogate never parses, since no directive of the format matches
    a surrogate.  When a prefix of it matches the format, \<^verbatim>\<open>strptime\<close> raises
    \<^verbatim>\<open>unconverted data remains:\<close> followed by the rest as it is; the rest holds the
    surrogate and the print raises \<^verbatim>\<open>UnicodeEncodeError\<close>.  Otherwise it raises
    \<^verbatim>\<open>time data ... does not match format\<close>, which shows the \<^verbatim>\<open>str\<close> escaped; the print
    goes through and the argument is returned.
\<close>

definition format_timestamp :: "world \<Rightarrow> py_str option \<Rightarrow> py_error + py_str" where
  "format_timestamp w timestamp_str =
     (case timestamp_str of
        None \<Rightarrow> Inr (Text ''Unknown'')
      | Some (Text s) \<Rightarrow>
          if s = ''Unknown'' then Inr (Text ''Unknown'')
          else (case strptime w s of
                  None \<Rightarrow> Inr (Text s)
                | Some dt \<Rightarrow>
                    (case strftime w dt of None \<Rightarrow> Inr (Text s) | Some out \<Rightarrow> Inr (Text out)))
      | Some (Surrogated s) \<Rightarrow>
          if prefix_matches w s then Inl UnicodeEncodeError else Inr (Surrogated s))"

section \<open>\<^verbatim>\<open>create_aurora_map\<close> (lines 67-206)\<close>

text \<open>
  The map is drawn from a fetch of its own, with index 0 and time \<^verbatim>\<open>"Unknown"\<close> when the
  feed gives nothing.  The file name, which the program derives from the wall clock, is
  the ordinal of the drawing here.  A drawing that raises leaves no \<open>MapSaved\<close> event.
\<close>

definition create_aurora_map :: "AuroraSystem \<Rightarrow> world \<Rightarrow> (py_error + nat) \<times> world" where
  "create_aurora_map self w =
     (let (r, w1) = get_kp_index w;
          (kp_index, timestamp) =
             (case r of None \<Rightarrow> (0, Some ''Unknown'') | Some (k, t) \<Rightarrow> (k, t))
      in case format_timestamp w1 (map_option Text timestamp) of
           Inl e \<Rightarrow> (Inl e, w1)
         | Inr formatted_timestamp \<Rightarrow>
             (case calculate_aurora_visibility self kp_index of
                Inl e \<Rightarrow> (Inl e, w1)
              | Inr (is_visible, visibility_info, visible_latitude) \<Rightarrow>
                  (let map_file = renders w1;
                       w2 = w1\<lparr>renders := Suc (renders w1)\<rparr>
                   in if render_ok w1 map_file
                      then (Inr map_file,
                            emit (MapSaved map_file kp_index (text_of formatted_timestamp)
                                    is_visible visible_latitude) w2)
                      else (Inl RenderError, w2))))"

section \<open>The three senders\<close>

text \<open>
  The \<^verbatim>\<open>try\<close> block of a sender: the message is built and handed to the mail server;
  any exception makes the sender return \<^verbatim>\<open>False\<close>.
\<close>

definition smtp_block :: "mail_kind \<Rightarrow> world \<Rightarrow> bool \<times> world" where
  "smtp_block k w =
     (let ok = smtp_ok w (smtp_calls w)
      in (ok, emit (SmtpAttempt k ok) (w\<lparr>smtp_calls := Suc (smtp_calls w)\<rparr>)))"

text \<open>\<^verbatim>\<open>send_daily_report_email\<close> (lines 208-313).\<close>

definition send_daily_report_email :: "AuroraSystem \<Rightarrow> world \<Rightarrow> (py_error + bool) \<times> world" where
  "send_daily_report_email self w =
     (case email_config self of
        None \<Rightarrow> (Inr False, emit (EmailSkipped DailyReportMail) w)
      | Some cfg \<Rightarrow>
          (let (r, w1) = get_kp_index w;
               (kp_index, timestamp) =
                  (case r of None \<Rightarrow> (0, Some ''Unknown'') | Some (k, t) \<Rightarrow> (k, t))
           in case format_timestamp w1 (map_option Text timestamp) of
                Inl e \<Rightarrow> (Inl e, w1)
              | Inr formatted_timestamp \<Rightarrow>
                  (case calculate_aurora_visibility self kp_index of
                     Inl e \<Rightarrow> (Inl e, w1)
                   | Inr (is_visible, visibility_info, visible_latitude) \<Rightarrow>
                       (case create_aurora_map self w1 of
                          (Inl e, w2) \<Rightarrow> (Inr False, w2)
                        | (Inr map_file, w2) \<Rightarrow>
                            (let (ok, w3) = smtp_block DailyReportMail w2
                             in (Inr ok, w3))))))"

text \<open>\<^verbatim>\<open>send_startup_email\<close> (lines 315-386).\<close>

definition send_startup_email :: "AuroraSystem \<Rightarrow> world \<Rightarrow> bool \<times> world" where
  "send_startup_email self w =
     (case email_config self of
        None \<Rightarrow> (False, emit (EmailSkipped StartupMail) w)
      | Some cfg \<Rightarrow> smtp_block StartupMail w)"

text \<open>\<^verbatim>\<open>send_email_alert\<close> (lines 388-475).\<close>

definition send_email_alert ::
  "AuroraSystem \<Rightarrow> rat \<Rightarrow> string \<Rightarrow> nat \<Rightarrow> world \<Rightarrow> bool \<times> world" where
  "send_email_alert self kp_index visibility_info map_file w =
     (case email_config self of
        None \<Rightarrow> (False, emit (EmailSkipped AlertMail) w)
      | Some cfg \<Rightarrow> smtp_block AlertMail w)"

section \<open>\<^verbatim>\<open>check_aurora_conditions\<close> (lines 484-517)\<close>

text \<open>\<^verbatim>\<open>notify_aurora_console\<close> (lines 477-482).\<close>

definition notify_aurora_console :: "rat \<Rightarrow> string \<Rightarrow> world \<Rightarrow> world" where
  "notify_aurora_console kp_index visibility_info w = emit (ConsoleAlert kp_index visibility_info) w"

text \<open>
  The third conjunct of \<^verbatim>\<open>should_alert\<close> (line 501):
  \<^verbatim>\<open>self.last_alert_time is None or time.time() - self.last_alert_time > self.alert_cooldown\<close>.
  The clock is read only when a last alert time is set.
\<close>

definition cooldown_over :: "AuroraSystem \<Rightarrow> world \<Rightarrow> bool \<times> world" where
  "cooldown_over self w =
     (case last_alert_time self of
        None \<Rightarrow> (True, w)
      | Some t \<Rightarrow>
          (let (now, w1) = time_time w in (of_int (alert_cooldown self) < now - t, w1)))"

text \<open>
  \<^verbatim>\<open>should_alert\<close> (lines 498-502); \<^verbatim>\<open>and\<close> evaluates its right operand only when the
  left one holds.
\<close>

definition should_alert :: "AuroraSystem \<Rightarrow> rat \<Rightarrow> bool \<Rightarrow> world \<Rightarrow> bool \<times> world" where
  "should_alert self kp_index is_visible w =
     (if of_int (kp_threshold self) \<le> kp_index
      then (if is_visible then cooldown_over self w else (False, w))
      else (False, w))"

text \<open>Line 506: \<^verbatim>\<open>self.last_alert_time = time.time()\<close>.\<close>

definition record_alert :: "AuroraSystem \<Rightarrow> world \<Rightarrow> AuroraSystem \<times> world" where
  "record_alert self w =
     (let (now, w1) = time_time w in (self\<lparr>last_alert_time := Some now\<rparr>, w1))"

text \<open>
  The check returns \<^verbatim>\<open>None\<close> on every path; an exception of \<^verbatim>\<open>format_timestamp\<close> or of the
  map drawing, which no handler catches here, leaves it with the changes made so far.
\<close>

definition check_aurora_conditions ::
  "AuroraSystem \<Rightarrow> world \<Rightarrow> (py_error + unit) \<times> AuroraSystem \<times> world" where
  "check_aurora_conditions self w =
     (let (r, w1) = get_kp_index w
      in case r of
           None \<Rightarrow> (Inr (), self, emit UnableToFetch w1)
         | Some (kp_index, timestamp) \<Rightarrow>
             (case format_timestamp w1 (map_option Text timestamp) of
                Inl e \<Rightarrow> (Inl e, self, w1)
              | Inr formatted_timestamp \<Rightarrow>
                  (case calculate_aurora_visibility self kp_index of
                     Inl e \<Rightarrow> (Inl e, self, w1)
                   | Inr (is_visible, visibility_info, _) \<Rightarrow>
                       (let (alert, w2) = should_alert self kp_index is_visible w1
                        in if alert
                           then (let w3 = notify_aurora_console kp_index visibility_info w2;
                                     (self', w4) = record_alert self w3
                                 in case create_aurora_map self' w4 of
                                      (Inl e, w5) \<Rightarrow> (Inl e, self', w5)
                                    | (Inr map_file, w5) \<Rightarrow>
                                        (case email_config self' of
                                           None \<Rightarrow> (Inr (), self', w5)
                                         | Some cfg \<Rightarrow>
                                             (Inr (), self',
                                              snd (send_email_alert self' kp_index
                                                     visibility_info map_file w5))))
                           else (let w3 = emit (NoAlertNeeded is_visible kp_index) w2
                                 in case create_aurora_map self w3 of
                                      (Inl e, w4) \<Rightarrow> (Inl e, self, w4)
                                    | (Inr map_file, w4) \<Rightarrow> (Inr (), self, w4))))))"

section \<open>The decision of a cycle, read off its events\<close>

text \<open>
  The specification speaks of four decisions of a cycle.  The check itself returns
  nothing, so the decision of a cycle is read off its console output, in the
  specification's terms: the early return prints that the index could not be fetched
  (\<open>NoData\<close>), the alert branch prints the alert (\<open>Alert\<close>), and the other branch prints
  \<^verbatim>\<open>No alert needed\<close> with the verdict and the index, which tells a cycle blocked only by
  the cooldown (threshold met and visible: \<open>Suppressed\<close>) from a \<open>ReportOnly\<close> one.
\<close>

datatype Decision = NoData | Suppressed | ReportOnly | Alert

fun decision_of_events :: "int \<Rightarrow> event list \<Rightarrow> Decision option" where
  "decision_of_events thr [] = None"
| "decision_of_events thr (UnableToFetch # es) = Some NoData"
| "decision_of_events thr (ConsoleAlert kp info # es) = Some Alert"
| "decision_of_events thr (NoAlertNeeded vis kp # es) =
     Some (if vis \<and> of_int thr \<le> kp then Suppressed else ReportOnly)"
| "decision_of_events thr (e # es) = decision_of_events thr es"

definition cycle_events :: "world \<Rightarrow> world \<Rightarrow> event list" where
  "cycle_events w w' = drop (length (events w)) (events w')"

definition cycle_decision :: "AuroraSystem \<Rightarrow> world \<Rightarrow> Decision option" where
  "cycle_decision self w =
     decision_of_events (kp_threshold self)
       (cycle_events w (snd (snd (check_aurora_conditions self w))))"

section \<open>Auxiliary notions for the proofs\<close>

text \<open>
  The latitude the loop of \<^verbatim>\<open>calculate_aurora_visibility\<close> ends with, as a closed table;
  \<open>scan_levels_table\<close> below shows that the loop computes it.
\<close>

definition selected_latitude :: "rat \<Rightarrow> int" where
  "selected_latitude x =
     (if 9 \<le> x then 35 else if 8 \<le> x then 40 else if 7 \<le> x then 45
      else if 6 \<le> x then 50 else if 5 \<le> x then 55 else if 4 \<le> x then 60
      else if 3 \<le> x then 65 else if 2 \<le> x then 70 else if 1 \<le> x then 75
      else 80)"

text \<open>The status text of line 64 for an index and the latitude selected for it.\<close>

definition status_text :: "rat \<Rightarrow> string" where
  "status_text x =
     ''Kp='' @ fmt_1f x @ '', Visible south to '' @ str_int (selected_latitude x) @
     [CHR 0xC2, CHR 0xB0] @ ''N''"

text \<open>The observer of the program's entry point (line 566) and of the examples.\<close>

definition east_peoria :: location where
  "east_peoria = \<lparr>lat = 40.6664, lon = - 89.5890\<rparr>"

text \<open>
  What \<^verbatim>\<open>format_timestamp\<close> returns on a time tag that is text (or missing);
  \<open>format_timestamp_text\<close> below shows that it does.
\<close>

definition formatted_text :: "world \<Rightarrow> string option \<Rightarrow> string" where
  "formatted_text w timestamp_str =
     (case timestamp_str of
        None \<Rightarrow> ''Unknown''
      | Some s \<Rightarrow>
          if s = ''Unknown'' then ''Unknown''
          else (case strptime w s of
                  None \<Rightarrow> s
                | Some dt \<Rightarrow> (case strftime w dt of None \<Rightarrow> s | Some out \<Rightarrow> out)))"

text \<open>
  The event a call of \<^verbatim>\<open>create_aurora_map\<close> leaves in a world: the saved map with the data
  its own fetch returned, or nothing when the drawing raises.
\<close>

definition map_saved :: "AuroraSystem \<Rightarrow> world \<Rightarrow> event list" where
  "map_saved self w =
     (if render_ok w (renders w)
      then (case kp_feed w (kp_calls w) of
              None \<Rightarrow> [MapSaved (renders w) 0 ''Unknown''
                         (of_int (selected_latitude 0) \<le> lat (user_location self))
                         (selected_latitude 0)]
            | Some (k, t) \<Rightarrow> [MapSaved (renders w) k (formatted_text w t)
                         (of_int (selected_latitude k) \<le> lat (user_location self))
                         (selected_latitude k)])
      else [])"

text \<open>
  The event of the alert mail of a cycle that starts in a world: the mail is attempted
  when the map was drawn and the mail settings are present.
\<close>

definition alert_mail :: "AuroraSystem \<Rightarrow> world \<Rightarrow> event list" where
  "alert_mail self w =
     (if render_ok w (renders w) \<and> email_config self \<noteq> None
      then [SmtpAttempt AlertMail (smtp_ok w (smtp_calls w))] else [])"

text \<open>How a cycle that draws a map ends: normally, or with the drawing's exception.\<close>

definition cycle_result :: "world \<Rightarrow> py_error + unit" where
  "cycle_result w = (if render_ok w (renders w) then Inr () else Inl RenderError)"

text \<open>
  Concrete worlds for the examples: a feed that always reports the same index, a given
  clock, drawings that succeed, a mail server that always answers the same way, and a
  parser that rejects every time tag; and a world whose feed is down.
\<close>

definition steady_world :: "rat \<Rightarrow> (nat \<Rightarrow> rat) \<Rightarrow> bool \<Rightarrow> world" where
  "steady_world kp clk mail_ok =
     \<lparr>kp_feed = (\<lambda>n. Some (kp, Some ''2024-01-15 12:00:00.000'')), kp_calls = 0,
      clock = clk, clock_calls = 0,
      render_ok = (\<lambda>n. True), renders = 0,
      smtp_ok = (\<lambda>n. mail_ok), smtp_calls = 0,
      strptime = (\<lambda>s. None), strftime = (\<lambda>d. None), prefix_matches = (\<lambda>s. False),
      events = []\<rparr>"

definition silent_world :: world where
  "silent_world = (steady_world 0 (\<lambda>n. 0) True)\<lparr>kp_feed := (\<lambda>n. None)\<rparr>"

text \<open>Mail settings for the examples.\<close>

definition example_mail :: mail_settings where
  "example_mail =
     \<lparr>from_email = ''observer@example.org'', password = ''app-password'',
      to_email = ''observer@example.org'', smtp_server = ''smtp.example.org'',
      smtp_port = 587\<rparr>"

text \<open>
  The decisions of \<open>n\<close> successive checks, each starting from the system and the world
  the one before left behind.
\<close>

fun run_cycles :: "nat \<Rightarrow> AuroraSystem \<Rightarrow> world \<Rightarrow> Decision option list" where
  "run_cycles 0 self w = []"
| "run_cycles (Suc n) self w =
     cycle_decision self w #
     run_cycles n (fst (snd (check_aurora_conditions self w)))
                  (snd (snd (check_aurora_conditions self w)))"

section \<open>Properties of the visibility model\<close>

lemma sorted_levels:
  "rev (sort (map fst visibility_map)) = [9, 8, 7, 6, 5, 4, 3, 2, 1, 0]"
  by (simp add: visibility_map_def)

lemma scan_levels_table:
  "scan_levels visibility_map [9, 8, 7, 6, 5, 4, 3, 2, 1, 0] x 80 = Inr (selected_latitude x)"
  by (simp add: visibility_map_def selected_latitude_def)

lemma calculate_aurora_visibility_eq:
  "calculate_aurora_visibility self x =
     Inr (of_int (selected_latitude x) \<le> lat (user_location self), status_text x,
          selected_latitude x)"
  unfolding calculate_aurora_visibility_def sorted_levels scan_levels_table status_text_def
  by (simp add: Let_def)

lemma levels_set: "fst ` set visibility_map = {0, 1, 2, 3, 4, 5, 6, 7, 8, 9}"
  by (auto simp add: visibility_map_def)

lemma largest_level:
  "(if \<exists>l \<in> fst ` set visibility_map. of_int l \<le> x
    then \<exists>l. map_of visibility_map l = Some (selected_latitude x) \<and> of_int l \<le> x \<and>
             (\<forall>l' \<in> fst ` set visibility_map. of_int l' \<le> x \<longrightarrow> l' \<le> l)
    else selected_latitude x = 80)"
proof -
  consider "x < 0" | "0 \<le> x \<and> x < 1" | "1 \<le> x \<and> x < 2" | "2 \<le> x \<and> x < 3"
    | "3 \<le> x \<and> x < 4" | "4 \<le> x \<and> x < 5" | "5 \<le> x \<and> x < 6" | "6 \<le> x \<and> x < 7"
    | "7 \<le> x \<and> x < 8" | "8 \<le> x \<and> x < 9" | "9 \<le> x"
    by linarith
  then show ?thesis
  proof cases
    case 1 then show ?thesis by (simp add: levels_set selected_latitude_def)
  next
    case 2 then show ?thesis
      by (simp add: levels_set selected_latitude_def)
         (rule exI [of _ 0], simp add: visibility_map_def)
  next
    case 3 then show ?thesis
      by (simp add: levels_set selected_latitude_def)
         (rule exI [of _ 1], simp add: visibility_map_def)
  next
    case 4 then show ?thesis
      by (simp add: levels_set selected_latitude_def)
         (rule exI [of _ 2], simp add: visibility_map_def)
  next
    case 5 then show ?thesis
      by (simp add: levels_set selected_latitude_def)
         (rule exI [of _ 3], simp add: visibility_map_def)
  next
    case 6 then show ?thesis
      by (simp add: levels_set selected_latitude_def)
         (rule exI [of _ 4], simp add: visibility_map_def)
  next
    case 7 then show ?thesis
      by (simp add: levels_set selected_latitude_def)
         (rule exI [of _ 5], simp add: visibility_map_def)
  next
    case 8 then show ?thesis
      by (simp add: levels_set selected_latitude_def)
         (rule exI [of _ 6], simp add: visibility_map_def)
  next
    case 9 then show ?thesis
      by (simp add: levels_set selected_latitude_def)
         (rule exI [of _ 7], simp add: visibility_map_def)
  next
    case 10 then show ?thesis
      by (simp add: levels_set selected_latitude_def)
         (rule exI [of _ 8], simp add: visibility_map_def)
  next
    case 11 then show ?thesis
      by (simp add: levels_set selected_latitude_def)
         (rule exI [of _ 9], simp add: visibility_map_def)
  qed
qed

lemma fmt_1f_4_9: "fmt_1f 4.9 = ''4.9''"
  by (simp add: fmt_1f_def round_half_even_def str_nat.simps)

lemma fmt_1f_4_0: "fmt_1f 4 = ''4.0''"
  by (simp add: fmt_1f_def round_half_even_def str_nat.simps)

text \<open>
  C1, as stated, fails on the status text.  For the observer at latitude 40.6664 the index
  4.9 and the index 4.0 give the same verdict and the same boundary of 60 degrees, but the
  returned tuples differ: the status text prints the index with one decimal.
\<close>

theorem step_function_status_differs:
  "calculate_aurora_visibility (AuroraSystem_init east_peoria None) 4.9 =
     Inr (False, ''Kp=4.9, Visible south to 60'' @ [CHR 0xC2, CHR 0xB0] @ ''N'', 60) \<and>
   calculate_aurora_visibility (AuroraSystem_init east_peoria None) 4.0 =
     Inr (False, ''Kp=4.0, Visible south to 60'' @ [CHR 0xC2, CHR 0xB0] @ ''N'', 60) \<and>
   calculate_aurora_visibility (AuroraSystem_init east_peoria None) 4.9 \<noteq>
     calculate_aurora_visibility (AuroraSystem_init east_peoria None) 4.0"
  by (simp add: calculate_aurora_visibility_eq status_text_def selected_latitude_def
      fmt_1f_4_9 fmt_1f_4_0 str_int_def str_nat.simps AuroraSystem_init_def east_peoria_def)

text \<open>
  C1 (amended): the tabulated levels are 0..9.  For every index value the visibility model
  returns a verdict, and its boundary latitude is the table's entry for the largest
  tabulated level that is less than or equal to the index value; when the index value is
  below every tabulated level the boundary latitude is 80.  The verdict is the comparison
  of the observer's latitude with that boundary.  So the index 4.9 yields the same
  \<open>is_visible\<close> and the same boundary latitude as the index 4.0 (the status text differs,
  since it prints the index value), and the index -1 at latitude 90 yields the boundary
  latitude 80.
\<close>

theorem largest_tabulated_level_selected:
  "fst ` set visibility_map = {0..9} \<and>
   (\<exists>s b. calculate_aurora_visibility self x =
            Inr (of_int b \<le> lat (user_location self), s, b) \<and>
          (if \<exists>l \<in> fst ` set visibility_map. of_int l \<le> x
           then \<exists>l. map_of visibility_map l = Some b \<and> of_int l \<le> x \<and>
                    (\<forall>l' \<in> fst ` set visibility_map. of_int l' \<le> x \<longrightarrow> l' \<le> l)
           else b = 80)) \<and>
   (\<exists>v s s' b. calculate_aurora_visibility self 4.9 = Inr (v, s, b) \<and>
              calculate_aurora_visibility self 4.0 = Inr (v, s', b)) \<and>
   (lat (user_location self) = 90 \<longrightarrow>
      (\<exists>s. calculate_aurora_visibility self (- 1) = Inr (True, s, 80)))"
proof (intro conjI)
  show "fst ` set visibility_map = {0..9}"
    unfolding levels_set by auto arith
  show "\<exists>s b. calculate_aurora_visibility self x =
            Inr (of_int b \<le> lat (user_location self), s, b) \<and>
          (if \<exists>l \<in> fst ` set visibility_map. of_int l \<le> x
           then \<exists>l. map_of visibility_map l = Some b \<and> of_int l \<le> x \<and>
                    (\<forall>l' \<in> fst ` set visibility_map. of_int l' \<le> x \<longrightarrow> l' \<le> l)
           else b = 80)"
    using largest_level [of x] calculate_aurora_visibility_eq [of self x] by blast
  show "\<exists>v s s' b. calculate_aurora_visibility self 4.9 = Inr (v, s, b) \<and>
              calculate_aurora_visibility self 4.0 = Inr (v, s', b)"
    by (simp add: calculate_aurora_visibility_eq selected_latitude_def)
  show "lat (user_location self) = 90 \<longrightarrow>
      (\<exists>s. calculate_aurora_visibility self (- 1) = Inr (True, s, 80))"
    by (simp add: calculate_aurora_visibility_eq selected_latitude_def)
qed

text \<open>
  The theorem at the index 4.9 for an observer at the pole: level 4 is selected, its
  boundary is 60, and the index -1 yields the boundary 80.
\<close>

theorem largest_tabulated_level_selected_witness:
  "calculate_aurora_visibility (AuroraSystem_init \<lparr>lat = 90, lon = 0\<rparr> None) (- 1) =
     Inr (True, ''Kp=-1.0, Visible south to 80'' @ [CHR 0xC2, CHR 0xB0] @ ''N'', 80) \<and>
   (\<exists>s. calculate_aurora_visibility (AuroraSystem_init \<lparr>lat = 90, lon = 0\<rparr> None) 4.9 =
      Inr (True, s, 60))"
  using largest_tabulated_level_selected
    [of "AuroraSystem_init \<lparr>lat = 90, lon = 0\<rparr> None" "4.9"]
  by (simp add: calculate_aurora_visibility_eq status_text_def selected_latitude_def
      fmt_1f_def round_half_even_def str_int_def str_nat.simps AuroraSystem_init_def)

text \<open>
  C4: the verdict is inclusive at the boundary.  For every index value the verdict
  \<open>is_visible\<close> is the truth value of "observer latitude \<ge> boundary latitude".  For
  every tabulated level \<open>L\<close> in 0..9 with table entry \<open>b\<close>, an observer exactly at
  latitude \<open>b\<close> gets \<open>is_visible = True\<close> and an observer at \<open>b - 0.01\<close> gets
  \<open>is_visible = False\<close>, both with boundary latitude \<open>b\<close>.
\<close>

theorem visibility_inclusive_at_boundary:
  "(\<exists>s b. calculate_aurora_visibility self x =
            Inr (of_int b \<le> lat (user_location self), s, b)) \<and>
   (\<forall>L \<in> {0..9}. \<exists>b. map_of visibility_map L = Some b \<and>
      (\<exists>s. calculate_aurora_visibility
              (self\<lparr>user_location := \<lparr>lat = of_int b, lon = lo\<rparr>\<rparr>) (of_int L) =
            Inr (True, s, b)) \<and>
      (\<exists>s. calculate_aurora_visibility
              (self\<lparr>user_location := \<lparr>lat = of_int b - 0.01, lon = lo\<rparr>\<rparr>) (of_int L) =
            Inr (False, s, b)))"
proof (intro conjI ballI)
  show "\<exists>s b. calculate_aurora_visibility self x =
            Inr (of_int b \<le> lat (user_location self), s, b)"
    by (simp add: calculate_aurora_visibility_eq)
next
  fix L :: int
  assume "L \<in> {0..9}"
  then have "L = 0 \<or> L = 1 \<or> L = 2 \<or> L = 3 \<or> L = 4 \<or> L = 5 \<or> L = 6 \<or> L = 7 \<or> L = 8 \<or> L = 9"
    by (simp add: atLeastAtMost_iff) presburger
  then show "\<exists>b. map_of visibility_map L = Some b \<and>
      (\<exists>s. calculate_aurora_visibility
              (self\<lparr>user_location := \<lparr>lat = of_int b, lon = lo\<rparr>\<rparr>) (of_int L) =
            Inr (True, s, b)) \<and>
      (\<exists>s. calculate_aurora_visibility
              (self\<lparr>user_location := \<lparr>lat = of_int b - 0.01, lon = lo\<rparr>\<rparr>) (of_int L) =
            Inr (False, s, b))"
    by (elim disjE)
       (simp_all add: calculate_aurora_visibility_eq selected_latitude_def visibility_map_def)
qed

text \<open>The theorem at level 4: an observer at 60 degrees sees, one at 59.99 does not.\<close>

theorem visibility_inclusive_at_boundary_witness:
  "(4::int) \<in> {0..9} \<and> map_of visibility_map 4 = Some 60 \<and>
   (\<exists>s. calculate_aurora_visibility
           ((AuroraSystem_init east_peoria None)\<lparr>user_location := \<lparr>lat = 60, lon = 0\<rparr>\<rparr>) 4 =
         Inr (True, s, 60)) \<and>
   (\<exists>s. calculate_aurora_visibility
           ((AuroraSystem_init east_peoria None)\<lparr>user_location := \<lparr>lat = 60 - 0.01, lon = 0\<rparr>\<rparr>) 4 =
         Inr (False, s, 60))"
proof -
  have m: "map_of visibility_map 4 = Some 60"
    by (simp add: visibility_map_def)
  have "(4::int) \<in> {0..9}" by simp
  with visibility_inclusive_at_boundary [of "AuroraSystem_init east_peoria None" 4 0]
  obtain b where "map_of visibility_map 4 = Some b"
    and "\<exists>s. calculate_aurora_visibility
           ((AuroraSystem_init east_peoria None)\<lparr>user_location := \<lparr>lat = of_int b, lon = 0\<rparr>\<rparr>)
           (of_int 4) = Inr (True, s, b)"
    and "\<exists>s. calculate_aurora_visibility
           ((AuroraSystem_init east_peoria None)\<lparr>user_location := \<lparr>lat = of_int b - 0.01, lon = 0\<rparr>\<rparr>)
           (of_int 4) = Inr (False, s, b)"
    by blast
  with m show ?thesis by simp
qed

section \<open>One cycle of the condition check, branch by branch\<close>

text \<open>
  The map drawing and the check are first brought into closed form.  A check takes one of
  five paths: no data; index below the threshold or observer outside the visible zone;
  first alert; alert after the cooldown; blocked by the cooldown.  Each path gets an
  equation for the result, the system and the world the check leaves behind, and
  \<open>check_cases\<close> splits a proof along the five paths.
\<close>

lemma format_timestamp_text:
  "format_timestamp w (map_option Text ts) = Inr (Text (formatted_text w ts))"
  "format_timestamp w None = Inr (Text (formatted_text w None))"
  "format_timestamp w (Some (Text s)) = Inr (Text (formatted_text w (Some s)))"
  by (simp_all add: format_timestamp_def formatted_text_def split: option.splits)

lemma formatted_text_frame:
  "strptime w' = strptime w \<Longrightarrow> strftime w' = strftime w \<Longrightarrow>
   formatted_text w' ts = formatted_text w ts"
  by (simp add: formatted_text_def split: option.splits)

lemma map_saved_frame:
  "user_location self' = user_location self \<Longrightarrow> render_ok w' = render_ok w \<Longrightarrow>
   renders w' = renders w \<Longrightarrow> kp_feed w' = kp_feed w \<Longrightarrow> kp_calls w' = kp_calls w \<Longrightarrow>
   strptime w' = strptime w \<Longrightarrow> strftime w' = strftime w \<Longrightarrow>
   map_saved self' w' = map_saved self w"
  by (simp add: map_saved_def formatted_text_frame [of w' w] split: option.splits)

lemma map_saved_upd:
  "map_saved (self\<lparr>last_alert_time := t\<rparr>) w = map_saved self w"
  "map_saved self (w\<lparr>events := ev\<rparr>) = map_saved self w"
  "map_saved self (w\<lparr>clock_calls := x\<rparr>) = map_saved self w"
  by (rule map_saved_frame; simp)+

lemma create_aurora_map_eq:
  "create_aurora_map self w =
     (if render_ok w (renders w) then Inr (renders w) else Inl RenderError,
      w\<lparr>kp_calls := Suc (kp_calls w), renders := Suc (renders w),
        events := events w @ map_saved self w\<rparr>)"
proof (cases "kp_feed w (kp_calls w)")
  case None
  have "formatted_text (w\<lparr>kp_calls := Suc (kp_calls w)\<rparr>) (Some ''Unknown'') = ''Unknown''"
    by (simp add: formatted_text_def)
  with None show ?thesis
    by (simp add: create_aurora_map_def calculate_aurora_visibility_eq get_kp_index_def emit_def
      Let_def map_saved_def format_timestamp_text)
next
  case (Some r)
  obtain k t where r: "r = (k, t)" by (cases r)
  have "formatted_text (w\<lparr>kp_calls := Suc (kp_calls w)\<rparr>) t = formatted_text w t"
    by (rule formatted_text_frame) simp_all
  with Some r show ?thesis
    by (simp add: create_aurora_map_def calculate_aurora_visibility_eq get_kp_index_def emit_def
      Let_def map_saved_def format_timestamp_text)
qed

lemma should_alert_eq:
  "should_alert self kp vis w =
     (if of_int (kp_threshold self) \<le> kp \<and> vis
      then (case last_alert_time self of
              None \<Rightarrow> (True, w)
            | Some t \<Rightarrow> (of_int (alert_cooldown self) < clock w (clock_calls w) - t,
                        w\<lparr>clock_calls := Suc (clock_calls w)\<rparr>))
      else (False, w))"
  by (simp add: should_alert_def cooldown_over_def time_time_def split: option.splits)

lemma check_no_data:
  "kp_feed w (kp_calls w) = None \<Longrightarrow>
   check_aurora_conditions self w =
     (Inr (), self, w\<lparr>kp_calls := Suc (kp_calls w), events := events w @ [UnableToFetch]\<rparr>)"
  by (simp add: check_aurora_conditions_def get_kp_index_def emit_def)

lemma check_first_alert:
  assumes feed: "kp_feed w (kp_calls w) = Some (kp, ts)"
    and thr: "of_int (kp_threshold self) \<le> kp"
    and vis: "of_int (selected_latitude kp) \<le> lat (user_location self)"
    and last: "last_alert_time self = None"
  shows "check_aurora_conditions self w =
     (cycle_result w, self\<lparr>last_alert_time := Some (clock w (clock_calls w))\<rparr>,
      w\<lparr>kp_calls := Suc (Suc (kp_calls w)), clock_calls := Suc (clock_calls w),
        renders := Suc (renders w),
        smtp_calls := smtp_calls w + length (alert_mail self w),
        events := events w @ ConsoleAlert kp (status_text kp) #
                  map_saved self (w\<lparr>kp_calls := Suc (kp_calls w)\<rparr>) @ alert_mail self w\<rparr>)"
proof -
  show ?thesis
  proof (cases "render_ok w (renders w)")
    case True
    with feed thr vis last show ?thesis
      by (cases "email_config self")
         (simp_all add: check_aurora_conditions_def get_kp_index_def format_timestamp_text
            calculate_aurora_visibility_eq should_alert_eq record_alert_def time_time_def
            notify_aurora_console_def emit_def send_email_alert_def smtp_block_def
            create_aurora_map_eq map_saved_upd alert_mail_def cycle_result_def Let_def)
  next
    case False
    with feed thr vis last show ?thesis
      by (simp add: check_aurora_conditions_def get_kp_index_def format_timestamp_text
            calculate_aurora_visibility_eq should_alert_eq record_alert_def time_time_def
            notify_aurora_console_def emit_def
            create_aurora_map_eq map_saved_upd alert_mail_def cycle_result_def Let_def)
  qed
qed

lemmas check_steps = check_aurora_conditions_def get_kp_index_def format_timestamp_text
  calculate_aurora_visibility_eq should_alert_eq record_alert_def time_time_def
  notify_aurora_console_def emit_def send_email_alert_def smtp_block_def
  create_aurora_map_eq map_saved_upd alert_mail_def cycle_result_def Let_def

lemma check_repeat_alert:
  assumes feed: "kp_feed w (kp_calls w) = Some (kp, ts)"
    and thr: "of_int (kp_threshold self) \<le> kp"
    and vis: "of_int (selected_latitude kp) \<le> lat (user_location self)"
    and last: "last_alert_time self = Some t"
    and over: "of_int (alert_cooldown self) < clock w (clock_calls w) - t"
  shows "check_aurora_conditions self w =
     (cycle_result w, self\<lparr>last_alert_time := Some (clock w (Suc (clock_calls w)))\<rparr>,
      w\<lparr>kp_calls := Suc (Suc (kp_calls w)), clock_calls := Suc (Suc (clock_calls w)),
        renders := Suc (renders w),
        smtp_calls := smtp_calls w + length (alert_mail self w),
        events := events w @ ConsoleAlert kp (status_text kp) #
                  map_saved self (w\<lparr>kp_calls := Suc (kp_calls w)\<rparr>) @ alert_mail self w\<rparr>)"
proof (cases "render_ok w (renders w)")
  case True
  with feed thr vis last over show ?thesis
    by (cases "email_config self") (simp_all add: check_steps)
next
  case False
  with feed thr vis last over show ?thesis
    by (simp add: check_steps)
qed

lemma check_suppressed:
  assumes feed: "kp_feed w (kp_calls w) = Some (kp, ts)"
    and thr: "of_int (kp_threshold self) \<le> kp"
    and vis: "of_int (selected_latitude kp) \<le> lat (user_location self)"
    and last: "last_alert_time self = Some t"
    and within: "clock w (clock_calls w) - t \<le> of_int (alert_cooldown self)"
  shows "check_aurora_conditions self w =
     (cycle_result w, self,
      w\<lparr>kp_calls := Suc (Suc (kp_calls w)), clock_calls := Suc (clock_calls w),
        renders := Suc (renders w),
        events := events w @ NoAlertNeeded True kp #
                  map_saved self (w\<lparr>kp_calls := Suc (kp_calls w)\<rparr>)\<rparr>)"
proof (cases "render_ok w (renders w)")
  case True
  with feed thr vis last within show ?thesis
    by (simp add: check_steps)
next
  case False
  with feed thr vis last within show ?thesis
    by (simp add: check_steps)
qed

lemma check_report_only:
  assumes feed: "kp_feed w (kp_calls w) = Some (kp, ts)"
    and below: "\<not> (of_int (kp_threshold self) \<le> kp \<and>
                  of_int (selected_latitude kp) \<le> lat (user_location self))"
  shows "check_aurora_conditions self w =
     (cycle_result w, self,
      w\<lparr>kp_calls := Suc (Suc (kp_calls w)), renders := Suc (renders w),
        events := events w @
                  NoAlertNeeded (of_int (selected_latitude kp) \<le> lat (user_location self)) kp #
                  map_saved self (w\<lparr>kp_calls := Suc (kp_calls w)\<rparr>)\<rparr>)"
proof -
  from below have c: "(of_int (kp_threshold self) \<le> kp \<and>
      of_int (selected_latitude kp) \<le> lat (user_location self)) = False"
    by simp
  show ?thesis
  proof (cases "render_ok w (renders w)")
    case True
    with feed show ?thesis
      by (simp add: check_steps c)
  next
    case False
    with feed show ?thesis
      by (simp add: check_steps c)
  qed
qed

lemma check_cases [case_names no_data report first again blocked]:
  fixes w :: world and self :: AuroraSystem
  obtains (no_data) "kp_feed w (kp_calls w) = None"
  | (report) kp ts where "kp_feed w (kp_calls w) = Some (kp, ts)"
      "\<not> (of_int (kp_threshold self) \<le> kp \<and>
          of_int (selected_latitude kp) \<le> lat (user_location self))"
  | (first) kp ts where "kp_feed w (kp_calls w) = Some (kp, ts)"
      "of_int (kp_threshold self) \<le> kp"
      "of_int (selected_latitude kp) \<le> lat (user_location self)"
      "last_alert_time self = None"
  | (again) kp ts t where "kp_feed w (kp_calls w) = Some (kp, ts)"
      "of_int (kp_threshold self) \<le> kp"
      "of_int (selected_latitude kp) \<le> lat (user_location self)"
      "last_alert_time self = Some t"
      "of_int (alert_cooldown self) < clock w (clock_calls w) - t"
  | (blocked) kp ts t where "kp_feed w (kp_calls w) = Some (kp, ts)"
      "of_int (kp_threshold self) \<le> kp"
      "of_int (selected_latitude kp) \<le> lat (user_location self)"
      "last_alert_time self = Some t"
      "clock w (clock_calls w) - t \<le> of_int (alert_cooldown self)"
proof (cases "kp_feed w (kp_calls w)")
  case None
  then show ?thesis by (rule no_data)
next
  case (Some r)
  obtain kp ts where r: "r = (kp, ts)" by (cases r)
  note feed = Some [unfolded r]
  show ?thesis
  proof (cases "of_int (kp_threshold self) \<le> kp \<and>
                of_int (selected_latitude kp) \<le> lat (user_location self)")
    case False
    with feed show ?thesis by (rule report)
  next
    case met: True
    show ?thesis
    proof (cases "last_alert_time self")
      case None
      with feed met show ?thesis by (blast intro: first)
    next
      case (Some t)
      show ?thesis
      proof (cases "of_int (alert_cooldown self) < clock w (clock_calls w) - t")
        case True
        with feed met Some show ?thesis by (blast intro: again)
      next
        case False
        then have "clock w (clock_calls w) - t \<le> of_int (alert_cooldown self)" by simp
        with feed met Some show ?thesis by (blast intro: blocked)
      qed
    qed
  qed
qed

lemma cycle_decision_eq:
  "cycle_decision self w =
     (case kp_feed w (kp_calls w) of
        None \<Rightarrow> Some NoData
      | Some (kp, ts) \<Rightarrow>
          if of_int (kp_threshold self) \<le> kp \<and>
             of_int (selected_latitude kp) \<le> lat (user_location self)
          then (case last_alert_time self of
                  None \<Rightarrow> Some Alert
                | Some t \<Rightarrow>
                    if of_int (alert_cooldown self) < clock w (clock_calls w) - t
                    then Some Alert else Some Suppressed)
          else Some ReportOnly)"
proof (cases rule: check_cases [where w = w and self = self])
  case no_data
  then show ?thesis
    by (simp add: cycle_decision_def cycle_events_def check_no_data)
next
  case (report kp ts)
  from report(2) show ?thesis
    by (auto simp add: cycle_decision_def cycle_events_def check_report_only [OF report]
        report(1))
next
  case (first kp ts)
  then show ?thesis
    by (simp add: cycle_decision_def cycle_events_def check_first_alert [OF first])
next
  case (again kp ts t)
  then show ?thesis
    by (simp add: cycle_decision_def cycle_events_def check_repeat_alert [OF again])
next
  case (blocked kp ts t)
  then show ?thesis
    by (simp add: cycle_decision_def cycle_events_def check_suppressed [OF blocked])
qed

lemma check_state:
  "fst (snd (check_aurora_conditions self w)) =
     (case cycle_decision self w of
        Some Alert \<Rightarrow>
          self\<lparr>last_alert_time :=
                 Some (clock w (case last_alert_time self of
                                  None \<Rightarrow> clock_calls w | Some t \<Rightarrow> Suc (clock_calls w)))\<rparr>
      | _ \<Rightarrow> self)"
proof (cases rule: check_cases [where w = w and self = self])
  case no_data
  then show ?thesis
    by (simp add: cycle_decision_eq check_no_data)
next
  case (report kp ts)
  from report(2) show ?thesis
    by (auto simp add: cycle_decision_eq check_report_only [OF report] report(1))
next
  case (first kp ts)
  then show ?thesis
    by (simp add: cycle_decision_eq check_first_alert [OF first])
next
  case (again kp ts t)
  then show ?thesis
    by (simp add: cycle_decision_eq check_repeat_alert [OF again])
next
  case (blocked kp ts t)
  then show ?thesis
    by (simp add: cycle_decision_eq check_suppressed [OF blocked])
qed

lemma cycle_decision_Alert_iff:
  "(cycle_decision self w = Some Alert) =
     (\<exists>kp ts. kp_feed w (kp_calls w) = Some (kp, ts) \<and>
        of_int (kp_threshold self) \<le> kp \<and>
        of_int (selected_latitude kp) \<le> lat (user_location self) \<and>
        (case last_alert_time self of None \<Rightarrow> True
         | Some t \<Rightarrow> of_int (alert_cooldown self) < clock w (clock_calls w) - t))"
  by (auto simp add: cycle_decision_eq split: option.splits if_splits)

lemma check_renders:
  assumes "kp_feed w (kp_calls w) \<noteq> None"
  shows "renders (snd (snd (check_aurora_conditions self w))) = Suc (renders w)"
proof (cases rule: check_cases [where w = w and self = self])
  case no_data
  with assms show ?thesis by simp
next
  case (report kp ts)
  show ?thesis by (simp add: check_report_only [OF report])
next
  case (first kp ts)
  show ?thesis by (simp add: check_first_alert [OF first])
next
  case (again kp ts t)
  show ?thesis by (simp add: check_repeat_alert [OF again])
next
  case (blocked kp ts t)
  show ?thesis by (simp add: check_suppressed [OF blocked])
qed

lemma check_frame:
  "kp_feed (snd (snd (check_aurora_conditions self w))) = kp_feed w" (is ?A)
  "clock (snd (snd (check_aurora_conditions self w))) = clock w" (is ?B)
  "render_ok (snd (snd (check_aurora_conditions self w))) = render_ok w" (is ?C)
  "smtp_ok (snd (snd (check_aurora_conditions self w))) = smtp_ok w" (is ?D)
  "kp_calls (snd (snd (check_aurora_conditions self w))) =
     (case kp_feed w (kp_calls w) of None \<Rightarrow> Suc (kp_calls w)
      | Some r \<Rightarrow> Suc (Suc (kp_calls w)))" (is ?E)
  "clock_calls (snd (snd (check_aurora_conditions self w))) =
     (case cycle_decision self w of
        Some Alert \<Rightarrow> (case last_alert_time self of None \<Rightarrow> Suc (clock_calls w)
                       | Some t \<Rightarrow> Suc (Suc (clock_calls w)))
      | Some Suppressed \<Rightarrow> Suc (clock_calls w)
      | _ \<Rightarrow> clock_calls w)" (is ?F)
proof -
  have "?A \<and> ?B \<and> ?C \<and> ?D \<and> ?E \<and> ?F"
  proof (cases rule: check_cases [where w = w and self = self])
    case no_data
    then show ?thesis by (simp add: check_no_data cycle_decision_eq)
  next
    case (report kp ts)
    from report(2) show ?thesis
      by (auto simp add: check_report_only [OF report] cycle_decision_eq report(1))
  next
    case (first kp ts)
    then show ?thesis by (simp add: check_first_alert [OF first] cycle_decision_eq)
  next
    case (again kp ts t)
    then show ?thesis by (simp add: check_repeat_alert [OF again] cycle_decision_eq)
  next
    case (blocked kp ts t)
    then show ?thesis by (simp add: check_suppressed [OF blocked] cycle_decision_eq)
  qed
  then show ?A ?B ?C ?D ?E ?F by simp_all
qed

lemma cooldown_over_eq:
  "cooldown_over self w =
     (case last_alert_time self of
        None \<Rightarrow> (True, w)
      | Some t \<Rightarrow> (of_int (alert_cooldown self) < clock w (clock_calls w) - t,
                  w\<lparr>clock_calls := Suc (clock_calls w)\<rparr>))"
  by (simp add: cooldown_over_def time_time_def split: option.splits)

text \<open>
  C5: when the feed gives no index, the check prints that it could not fetch the index and
  returns at once: the system, and with it \<open>last_alert_time\<close>, is unchanged, no map is
  drawn and no mail is attempted (the only changes of the world are the counted fetch and
  the printed line).  This is the one early exit: the cycle decides \<open>NoData\<close> exactly
  when the feed gives nothing, and every other cycle draws a map.
\<close>

theorem no_data_early_exit:
  "(kp_feed w (kp_calls w) = None \<longrightarrow>
      check_aurora_conditions self w =
        (Inr (), self,
         w\<lparr>kp_calls := Suc (kp_calls w), events := events w @ [UnableToFetch]\<rparr>)) \<and>
   (cycle_decision self w = Some NoData) = (kp_feed w (kp_calls w) = None) \<and>
   (kp_feed w (kp_calls w) \<noteq> None \<longrightarrow>
      renders (snd (snd (check_aurora_conditions self w))) = Suc (renders w))"
proof (intro conjI impI)
  assume "kp_feed w (kp_calls w) = None"
  then show "check_aurora_conditions self w =
        (Inr (), self,
         w\<lparr>kp_calls := Suc (kp_calls w), events := events w @ [UnableToFetch]\<rparr>)"
    by (rule check_no_data)
next
  show "(cycle_decision self w = Some NoData) = (kp_feed w (kp_calls w) = None)"
    by (simp add: cycle_decision_eq split: option.splits)
next
  assume "kp_feed w (kp_calls w) \<noteq> None"
  then show "renders (snd (snd (check_aurora_conditions self w))) = Suc (renders w)"
    by (rule check_renders)
qed

text \<open>The theorem in a world whose feed is down, and in one whose feed reports 9.\<close>

theorem no_data_early_exit_witness:
  "check_aurora_conditions (AuroraSystem_init east_peoria None) silent_world =
     (Inr (), AuroraSystem_init east_peoria None,
      silent_world\<lparr>kp_calls := 1, events := [UnableToFetch]\<rparr>) \<and>
   cycle_decision (AuroraSystem_init east_peoria None) silent_world = Some NoData \<and>
   renders (snd (snd (check_aurora_conditions (AuroraSystem_init east_peoria None)
      (steady_world 9 (\<lambda>n. 0) True)))) = 1"
  using no_data_early_exit [of silent_world "AuroraSystem_init east_peoria None"]
    no_data_early_exit [of "steady_world 9 (\<lambda>n. 0) True" "AuroraSystem_init east_peoria None"]
  by (simp add: silent_world_def steady_world_def)

section \<open>The alert state, the cooldown and the decisions\<close>

text \<open>
  C6: \<open>last_alert_time\<close> changes only in a cycle that decides \<open>Alert\<close>; a cycle that
  decides \<open>Suppressed\<close>, \<open>ReportOnly\<close> or \<open>NoData\<close> returns the system unchanged.  In an
  \<open>Alert\<close> cycle it becomes a clock reading taken in that cycle, whatever the drawing of
  the map and the mail server do afterwards: the resulting system and the decision are the
  same for every outcome of the drawings and of the mail server.  Hence after an \<open>Alert\<close>
  cycle, also one whose delivery failed, no cycle whose clock reading lies within the
  cooldown of the recorded time decides \<open>Alert\<close>.  (Line 506 is the only assignment to
  \<open>last_alert_time\<close> after the constructor: the senders and the map drawing return no
  system.)
\<close>

theorem alert_state_updated_at_decision:
  "(cycle_decision self w \<noteq> Some Alert \<longrightarrow>
      fst (snd (check_aurora_conditions self w)) = self) \<and>
   (cycle_decision self w = Some Alert \<longrightarrow>
      (\<exists>n. clock_calls w \<le> n \<and>
           fst (snd (check_aurora_conditions self w)) =
             self\<lparr>last_alert_time := Some (clock w n)\<rparr> \<and>
           (\<forall>w'. clock w' (clock_calls w') - clock w n \<le> of_int (alert_cooldown self) \<longrightarrow>
                 cycle_decision (self\<lparr>last_alert_time := Some (clock w n)\<rparr>) w'
                   \<noteq> Some Alert))) \<and>
   fst (snd (check_aurora_conditions self (w\<lparr>render_ok := ro, smtp_ok := so\<rparr>))) =
     fst (snd (check_aurora_conditions self w)) \<and>
   cycle_decision self (w\<lparr>render_ok := ro, smtp_ok := so\<rparr>) = cycle_decision self w"
proof (intro conjI impI)
  assume "cycle_decision self w \<noteq> Some Alert"
  then show "fst (snd (check_aurora_conditions self w)) = self"
    by (simp add: check_state split: option.splits Decision.splits)
next
  assume a: "cycle_decision self w = Some Alert"
  let ?n = "case last_alert_time self of None \<Rightarrow> clock_calls w | Some t \<Rightarrow> Suc (clock_calls w)"
  have "clock_calls w \<le> ?n"
    by (simp split: option.splits)
  moreover from a have "fst (snd (check_aurora_conditions self w)) =
      self\<lparr>last_alert_time := Some (clock w ?n)\<rparr>"
    by (simp add: check_state)
  moreover have "\<forall>w'. clock w' (clock_calls w') - clock w ?n \<le> of_int (alert_cooldown self) \<longrightarrow>
      cycle_decision (self\<lparr>last_alert_time := Some (clock w ?n)\<rparr>) w' \<noteq> Some Alert"
    by (simp add: cycle_decision_Alert_iff)
  ultimately show "\<exists>n. clock_calls w \<le> n \<and>
           fst (snd (check_aurora_conditions self w)) =
             self\<lparr>last_alert_time := Some (clock w n)\<rparr> \<and>
           (\<forall>w'. clock w' (clock_calls w') - clock w n \<le> of_int (alert_cooldown self) \<longrightarrow>
                 cycle_decision (self\<lparr>last_alert_time := Some (clock w n)\<rparr>) w'
                   \<noteq> Some Alert)"
    by blast
next
  show "fst (snd (check_aurora_conditions self (w\<lparr>render_ok := ro, smtp_ok := so\<rparr>))) =
     fst (snd (check_aurora_conditions self w))"
    by (simp add: check_state cycle_decision_eq split: option.splits)
next
  show "cycle_decision self (w\<lparr>render_ok := ro, smtp_ok := so\<rparr>) = cycle_decision self w"
    by (simp add: cycle_decision_eq split: option.splits)
qed

lemma first_alert_example:
  "check_aurora_conditions (AuroraSystem_init east_peoria (Some example_mail))
      (steady_world 9 (\<lambda>n. 1000 + of_nat n) False) =
    (Inr (),
     (AuroraSystem_init east_peoria (Some example_mail))\<lparr>last_alert_time := Some 1000\<rparr>,
     (steady_world 9 (\<lambda>n. 1000 + of_nat n) False)
       \<lparr>kp_calls := 2, clock_calls := 1, renders := 1, smtp_calls := 1,
        events := [ConsoleAlert 9 (''Kp=9.0, Visible south to 35'' @ [CHR 0xC2, CHR 0xB0] @ ''N''),
                   MapSaved 0 9 ''2024-01-15 12:00:00.000'' True 35,
                   SmtpAttempt AlertMail False]\<rparr>)"
  by (simp add: check_first_alert [where kp = 9 and ts = "Some ''2024-01-15 12:00:00.000''"]
      cycle_result_def alert_mail_def map_saved_def formatted_text_def
      steady_world_def AuroraSystem_init_def east_peoria_def selected_latitude_def
      status_text_def fmt_1f_def round_half_even_def str_int_def str_nat.simps)

text \<open>
  The theorem with a mail server that refuses every message: at index 9 the first cycle
  alerts, the delivery fails, the alert time 1000 is recorded all the same and the next
  cycle (clock 1001) is suppressed; at index 3.67 the system is left as it was.
\<close>

theorem alert_state_updated_at_decision_witness:
  "cycle_decision (AuroraSystem_init east_peoria (Some example_mail))
      (steady_world 9 (\<lambda>n. 1000 + of_nat n) False) = Some Alert \<and>
   fst (snd (check_aurora_conditions (AuroraSystem_init east_peoria (Some example_mail))
      (steady_world 9 (\<lambda>n. 1000 + of_nat n) False))) =
     (AuroraSystem_init east_peoria (Some example_mail))\<lparr>last_alert_time := Some 1000\<rparr> \<and>
   cycle_events (steady_world 9 (\<lambda>n. 1000 + of_nat n) False)
     (snd (snd (check_aurora_conditions (AuroraSystem_init east_peoria (Some example_mail))
        (steady_world 9 (\<lambda>n. 1000 + of_nat n) False)))) =
     [ConsoleAlert 9 (''Kp=9.0, Visible south to 35'' @ [CHR 0xC2, CHR 0xB0] @ ''N''),
      MapSaved 0 9 ''2024-01-15 12:00:00.000'' True 35,
      SmtpAttempt AlertMail False] \<and>
   cycle_decision
     (fst (snd (check_aurora_conditions (AuroraSystem_init east_peoria (Some example_mail))
        (steady_world 9 (\<lambda>n. 1000 + of_nat n) False))))
     (snd (snd (check_aurora_conditions (AuroraSystem_init east_peoria (Some example_mail))
        (steady_world 9 (\<lambda>n. 1000 + of_nat n) False)))) = Some Suppressed \<and>
   fst (snd (check_aurora_conditions (AuroraSystem_init east_peoria (Some example_mail))
      (steady_world 3.67 (\<lambda>n. 1000 + of_nat n) False))) =
     AuroraSystem_init east_peoria (Some example_mail)"
  using alert_state_updated_at_decision
    [of "AuroraSystem_init east_peoria (Some example_mail)"
        "steady_world 9 (\<lambda>n. 1000 + of_nat n) False" "\<lambda>n. True" "\<lambda>n. False"]
    alert_state_updated_at_decision
    [of "AuroraSystem_init east_peoria (Some example_mail)"
        "steady_world 3.67 (\<lambda>n. 1000 + of_nat n) False" "\<lambda>n. True" "\<lambda>n. False"]
  unfolding first_alert_example
  by (simp add: cycle_decision_eq cycle_events_def steady_world_def AuroraSystem_init_def
      east_peoria_def selected_latitude_def)

text \<open>
  C2, as stated, fails when exactly the cooldown has passed: with the last alert at 1000,
  a cooldown of 3600 and the clock at 4600, \<open>now - last_alert_time < cooldown\<close> is false,
  yet the cycle is suppressed, since line 501 lets an alert through only when
  \<open>now - last_alert_time > cooldown\<close>.
\<close>

theorem cooldown_boundary_suppressed:
  "last_alert_time ((AuroraSystem_init east_peoria None)\<lparr>last_alert_time := Some 1000\<rparr>)
     = Some 1000 \<and>
   alert_cooldown ((AuroraSystem_init east_peoria None)\<lparr>last_alert_time := Some 1000\<rparr>)
     = 3600 \<and>
   clock (steady_world 9 (\<lambda>n. 4600) True) (clock_calls (steady_world 9 (\<lambda>n. 4600) True))
     = 4600 \<and>
   \<not> ((4600::rat) - 1000 < 3600) \<and>
   \<not> fst (cooldown_over ((AuroraSystem_init east_peoria None)\<lparr>last_alert_time := Some 1000\<rparr>)
            (steady_world 9 (\<lambda>n. 4600) True)) \<and>
   cycle_decision ((AuroraSystem_init east_peoria None)\<lparr>last_alert_time := Some 1000\<rparr>)
     (steady_world 9 (\<lambda>n. 4600) True) = Some Suppressed"
  by (simp add: cooldown_over_eq cycle_decision_eq steady_world_def AuroraSystem_init_def
      east_peoria_def selected_latitude_def)

text \<open>
  C2 (amended): the cooldown blocks an alert exactly when \<open>last_alert_time\<close> is set and
  \<open>now - last_alert_time \<le> alert_cooldown\<close>; with no last alert time it never blocks.
  A cycle decides \<open>Suppressed\<close> exactly when the index reaches the threshold, the observer
  is in the visible zone, and the cooldown blocks.  With a cooldown of 3600, after the
  alert time \<open>now\<close> was recorded, a query at \<open>now + 1\<close> is blocked and a query at
  \<open>now + 3601\<close> is not.
\<close>

theorem cooldown_suppression:
  "(last_alert_time self = None \<longrightarrow> fst (cooldown_over self w)) \<and>
   (\<forall>t. last_alert_time self = Some t \<longrightarrow>
        (\<not> fst (cooldown_over self w)) =
        (clock w (clock_calls w) - t \<le> of_int (alert_cooldown self))) \<and>
   (cycle_decision self w = Some Suppressed) =
     (\<exists>kp ts s b t. kp_feed w (kp_calls w) = Some (kp, ts) \<and>
        of_int (kp_threshold self) \<le> kp \<and>
        calculate_aurora_visibility self kp = Inr (True, s, b) \<and>
        last_alert_time self = Some t \<and>
        clock w (clock_calls w) - t \<le> of_int (alert_cooldown self)) \<and>
   (alert_cooldown self = 3600 \<longrightarrow>
      (\<forall>w'. clock w' (clock_calls w') = clock w (clock_calls w) + 1 \<longrightarrow>
            \<not> fst (cooldown_over (fst (record_alert self w)) w')) \<and>
      (\<forall>w'. clock w' (clock_calls w') = clock w (clock_calls w) + 3601 \<longrightarrow>
            fst (cooldown_over (fst (record_alert self w)) w')))"
proof (intro conjI)
  show "last_alert_time self = None \<longrightarrow> fst (cooldown_over self w)"
    by (simp add: cooldown_over_eq)
  show "\<forall>t. last_alert_time self = Some t \<longrightarrow>
        (\<not> fst (cooldown_over self w)) =
        (clock w (clock_calls w) - t \<le> of_int (alert_cooldown self))"
    by (auto simp add: cooldown_over_eq)
  show "(cycle_decision self w = Some Suppressed) =
     (\<exists>kp ts s b t. kp_feed w (kp_calls w) = Some (kp, ts) \<and>
        of_int (kp_threshold self) \<le> kp \<and>
        calculate_aurora_visibility self kp = Inr (True, s, b) \<and>
        last_alert_time self = Some t \<and>
        clock w (clock_calls w) - t \<le> of_int (alert_cooldown self))"
    by (auto simp add: cycle_decision_eq calculate_aurora_visibility_eq
        split: option.splits if_splits)
  show "alert_cooldown self = 3600 \<longrightarrow>
      (\<forall>w'. clock w' (clock_calls w') = clock w (clock_calls w) + 1 \<longrightarrow>
            \<not> fst (cooldown_over (fst (record_alert self w)) w')) \<and>
      (\<forall>w'. clock w' (clock_calls w') = clock w (clock_calls w) + 3601 \<longrightarrow>
            fst (cooldown_over (fst (record_alert self w)) w'))"
    by (simp add: cooldown_over_eq record_alert_def time_time_def)
qed

text \<open>
  The theorem with an alert recorded at 1000: nothing blocks before it, the query at 1001
  is blocked (and the cycle at index 9 is suppressed), the query at 4601 is not.
\<close>

theorem cooldown_suppression_witness:
  "fst (cooldown_over (AuroraSystem_init east_peoria None) (steady_world 9 (\<lambda>n. 1000) True)) \<and>
   \<not> fst (cooldown_over
          (fst (record_alert (AuroraSystem_init east_peoria None)
                  (steady_world 9 (\<lambda>n. 1000) True)))
          (steady_world 9 (\<lambda>n. 1001) True)) \<and>
   fst (cooldown_over
          (fst (record_alert (AuroraSystem_init east_peoria None)
                  (steady_world 9 (\<lambda>n. 1000) True)))
          (steady_world 9 (\<lambda>n. 4601) True)) \<and>
   cycle_decision
     (fst (record_alert (AuroraSystem_init east_peoria None)
             (steady_world 9 (\<lambda>n. 1000) True)))
     (steady_world 9 (\<lambda>n. 1001) True) = Some Suppressed"
  using cooldown_suppression
    [of "AuroraSystem_init east_peoria None" "steady_world 9 (\<lambda>n. 1000) True"]
    cooldown_suppression
    [of "fst (record_alert (AuroraSystem_init east_peoria None)
             (steady_world 9 (\<lambda>n. 1000) True))" "steady_world 9 (\<lambda>n. 1001) True"]
  by (simp add: cooldown_over_eq cycle_decision_eq record_alert_def time_time_def
      steady_world_def AuroraSystem_init_def east_peoria_def selected_latitude_def)

text \<open>
  C3, as stated, fails at the index 6.0: level 6 has the boundary 50 degrees, the observer
  at 40.6664 is south of it, so the first cycle is not an alert but report-only.
\<close>

theorem index_six_not_alerted:
  "kp_threshold (AuroraSystem_init east_peoria (Some example_mail)) = 4 \<and>
   lat (user_location (AuroraSystem_init east_peoria (Some example_mail))) = 40.6664 \<and>
   last_alert_time (AuroraSystem_init east_peoria (Some example_mail)) = None \<and>
   calculate_aurora_visibility (AuroraSystem_init east_peoria (Some example_mail)) 6 =
     Inr (False, ''Kp=6.0, Visible south to 50'' @ [CHR 0xC2, CHR 0xB0] @ ''N'', 50) \<and>
   cycle_decision (AuroraSystem_init east_peoria (Some example_mail))
     (steady_world 6 (\<lambda>n. 1000 + of_nat n) True) = Some ReportOnly \<and>
   cycle_decision (AuroraSystem_init east_peoria (Some example_mail))
     (steady_world 6 (\<lambda>n. 1000 + of_nat n) True) \<noteq> Some Alert"
  by (simp add: cycle_decision_eq calculate_aurora_visibility_eq status_text_def
      steady_world_def AuroraSystem_init_def east_peoria_def selected_latitude_def
      fmt_1f_def round_half_even_def str_int_def str_nat.simps)

text \<open>
  C3 (amended): for the observer at latitude 40.6664 with threshold 4 and cooldown 3600,
  a check with index 3.67 decides \<open>ReportOnly\<close> (boundary 65, not visible), and so does a
  check with index 6.0 (boundary 50, not visible), whatever the last alert time.  A check
  with index 8.0 (boundary 40, visible) decides \<open>Alert\<close> on the first cycle and records
  the clock reading; a later check with index 8.0 whose clock reading is at most 3600
  after it decides \<open>Suppressed\<close> and leaves the system unchanged, and one whose clock
  reading is more than 3600 after it decides \<open>Alert\<close> again.
\<close>

theorem east_peoria_scenarios:
  "(kp_feed w (kp_calls w) = Some (3.67, ts) \<longrightarrow>
      (\<exists>s. calculate_aurora_visibility (AuroraSystem_init east_peoria cfg) 3.67 =
             Inr (False, s, 65)) \<and>
      cycle_decision ((AuroraSystem_init east_peoria cfg)\<lparr>last_alert_time := l\<rparr>) w =
        Some ReportOnly) \<and>
   (kp_feed w (kp_calls w) = Some (6, ts) \<longrightarrow>
      (\<exists>s. calculate_aurora_visibility (AuroraSystem_init east_peoria cfg) 6 =
             Inr (False, s, 50)) \<and>
      cycle_decision ((AuroraSystem_init east_peoria cfg)\<lparr>last_alert_time := l\<rparr>) w =
        Some ReportOnly) \<and>
   (kp_feed w (kp_calls w) = Some (8, ts) \<longrightarrow>
      (\<exists>s. calculate_aurora_visibility (AuroraSystem_init east_peoria cfg) 8 =
             Inr (True, s, 40)) \<and>
      cycle_decision (AuroraSystem_init east_peoria cfg) w = Some Alert \<and>
      fst (snd (check_aurora_conditions (AuroraSystem_init east_peoria cfg) w)) =
        (AuroraSystem_init east_peoria cfg)\<lparr>last_alert_time := Some (clock w (clock_calls w))\<rparr> \<and>
      (\<forall>w' ts'. kp_feed w' (kp_calls w') = Some (8, ts') \<and>
                clock w' (clock_calls w') - clock w (clock_calls w) \<le> 3600 \<longrightarrow>
         cycle_decision
           ((AuroraSystem_init east_peoria cfg)\<lparr>last_alert_time := Some (clock w (clock_calls w))\<rparr>)
           w' = Some Suppressed \<and>
         fst (snd (check_aurora_conditions
           ((AuroraSystem_init east_peoria cfg)\<lparr>last_alert_time := Some (clock w (clock_calls w))\<rparr>)
           w')) =
           (AuroraSystem_init east_peoria cfg)\<lparr>last_alert_time := Some (clock w (clock_calls w))\<rparr>) \<and>
      (\<forall>w' ts'. kp_feed w' (kp_calls w') = Some (8, ts') \<and>
                3600 < clock w' (clock_calls w') - clock w (clock_calls w) \<longrightarrow>
         cycle_decision
           ((AuroraSystem_init east_peoria cfg)\<lparr>last_alert_time := Some (clock w (clock_calls w))\<rparr>)
           w' = Some Alert))"
proof (intro conjI impI allI)
  assume "kp_feed w (kp_calls w) = Some (3.67, ts)"
  then show "cycle_decision ((AuroraSystem_init east_peoria cfg)\<lparr>last_alert_time := l\<rparr>) w =
        Some ReportOnly"
    by (simp add: cycle_decision_eq AuroraSystem_init_def east_peoria_def selected_latitude_def)
next
  assume "kp_feed w (kp_calls w) = Some (6, ts)"
  then show "cycle_decision ((AuroraSystem_init east_peoria cfg)\<lparr>last_alert_time := l\<rparr>) w =
        Some ReportOnly"
    by (simp add: cycle_decision_eq AuroraSystem_init_def east_peoria_def selected_latitude_def)
next
  assume "kp_feed w (kp_calls w) = Some (8, ts)"
  then show "cycle_decision (AuroraSystem_init east_peoria cfg) w = Some Alert"
    by (simp add: cycle_decision_eq AuroraSystem_init_def east_peoria_def selected_latitude_def)
next
  assume "kp_feed w (kp_calls w) = Some (8, ts)"
  then show "fst (snd (check_aurora_conditions (AuroraSystem_init east_peoria cfg) w)) =
        (AuroraSystem_init east_peoria cfg)\<lparr>last_alert_time := Some (clock w (clock_calls w))\<rparr>"
    by (simp add: check_state cycle_decision_eq AuroraSystem_init_def east_peoria_def
        selected_latitude_def)
next
  fix w' :: world and ts' :: "string option"
  assume "kp_feed w' (kp_calls w') = Some (8, ts') \<and>
                clock w' (clock_calls w') - clock w (clock_calls w) \<le> 3600"
  then show "cycle_decision
           ((AuroraSystem_init east_peoria cfg)\<lparr>last_alert_time := Some (clock w (clock_calls w))\<rparr>)
           w' = Some Suppressed"
    by (simp add: cycle_decision_eq AuroraSystem_init_def east_peoria_def selected_latitude_def)
next
  fix w' :: world and ts' :: "string option"
  assume "kp_feed w' (kp_calls w') = Some (8, ts') \<and>
                clock w' (clock_calls w') - clock w (clock_calls w) \<le> 3600"
  then show "fst (snd (check_aurora_conditions
           ((AuroraSystem_init east_peoria cfg)\<lparr>last_alert_time := Some (clock w (clock_calls w))\<rparr>)
           w')) =
           (AuroraSystem_init east_peoria cfg)\<lparr>last_alert_time := Some (clock w (clock_calls w))\<rparr>"
    by (simp add: check_state cycle_decision_eq AuroraSystem_init_def east_peoria_def
        selected_latitude_def)
next
  fix w' :: world and ts' :: "string option"
  assume "kp_feed w' (kp_calls w') = Some (8, ts') \<and>
                3600 < clock w' (clock_calls w') - clock w (clock_calls w)"
  then show "cycle_decision
           ((AuroraSystem_init east_peoria cfg)\<lparr>last_alert_time := Some (clock w (clock_calls w))\<rparr>)
           w' = Some Alert"
    by (simp add: cycle_decision_eq AuroraSystem_init_def east_peoria_def selected_latitude_def)
qed (simp_all add: calculate_aurora_visibility_eq selected_latitude_def AuroraSystem_init_def
      east_peoria_def)

text \<open>
  The theorem on three successive checks at index 8.0 with the clock readings 1000, 1001
  and 4602, and on checks at the indices 3.67 and 6.0.
\<close>

theorem east_peoria_scenarios_witness:
  "run_cycles 3 (AuroraSystem_init east_peoria (Some example_mail))
     (steady_world 8 (\<lambda>n. if n = 0 then 1000 else if n = 1 then 1001 else 4602) True) =
     [Some Alert, Some Suppressed, Some Alert] \<and>
   run_cycles 2 (AuroraSystem_init east_peoria (Some example_mail))
     (steady_world 3.67 (\<lambda>n. 1000) True) = [Some ReportOnly, Some ReportOnly] \<and>
   run_cycles 2 (AuroraSystem_init east_peoria (Some example_mail))
     (steady_world 6 (\<lambda>n. 1000) True) = [Some ReportOnly, Some ReportOnly]"
  using east_peoria_scenarios
    [of "steady_world 8 (\<lambda>n. if n = 0 then 1000 else if n = 1 then 1001 else 4602) True"
        "Some ''2024-01-15 12:00:00.000''" "Some example_mail" None]
  by (simp add: numeral_3_eq_3 numeral_2_eq_2 check_frame check_state cycle_decision_eq
      steady_world_def AuroraSystem_init_def east_peoria_def selected_latitude_def)

section \<open>Input validation, the time tag, and the senders\<close>

text \<open>
  C7, as stated, fails: nothing in the program validates the latitude.  A location with
  latitude 100 is stored as given, and the visibility model returns a verdict for it
  (visible at index 0, since 100 \<ge> 80).
\<close>

theorem latitude_out_of_range_accepted:
  "\<not> (- 90 \<le> lat \<lparr>lat = 100, lon = 0\<rparr> \<and> lat \<lparr>lat = 100, lon = 0\<rparr> \<le> 90) \<and>
   user_location (AuroraSystem_init \<lparr>lat = 100, lon = 0\<rparr> None) = \<lparr>lat = 100, lon = 0\<rparr> \<and>
   calculate_aurora_visibility (AuroraSystem_init \<lparr>lat = 100, lon = 0\<rparr> None) 0 =
     Inr (True, ''Kp=0.0, Visible south to 80'' @ [CHR 0xC2, CHR 0xB0] @ ''N'', 80)"
  by (simp add: calculate_aurora_visibility_eq status_text_def selected_latitude_def
      AuroraSystem_init_def fmt_1f_def round_half_even_def str_int_def str_nat.simps)

text \<open>
  C7 (amended): an observer latitude outside [-90, 90] is not rejected.  The constructor
  stores every location unchanged (so it is never clamped), and the visibility model
  returns a verdict for every latitude and every index: the comparison of the stored
  latitude with the boundary latitude, which lies between 35 and 80.  So a latitude of 80
  or more, such as 100, is reported visible at every index.
\<close>

theorem latitude_taken_as_given:
  "user_location (AuroraSystem_init loc cfg) = loc \<and>
   (\<exists>s b. calculate_aurora_visibility (AuroraSystem_init loc cfg) x =
            Inr (of_int b \<le> lat loc, s, b) \<and> 35 \<le> b \<and> b \<le> 80) \<and>
   (80 \<le> lat loc \<longrightarrow>
      (\<exists>s b. calculate_aurora_visibility (AuroraSystem_init loc cfg) x = Inr (True, s, b)))"
  by (simp add: calculate_aurora_visibility_eq AuroraSystem_init_def selected_latitude_def)

text \<open>The theorem at the latitude -120 and at the latitude 100, for the index 9.\<close>

theorem latitude_taken_as_given_witness:
  "user_location (AuroraSystem_init \<lparr>lat = - 120, lon = 0\<rparr> None) = \<lparr>lat = - 120, lon = 0\<rparr> \<and>
   (\<exists>s. calculate_aurora_visibility (AuroraSystem_init \<lparr>lat = - 120, lon = 0\<rparr> None) 9 =
            Inr (False, s, 35)) \<and>
   (80::rat) \<le> lat \<lparr>lat = 100, lon = 0\<rparr> \<and>
   (\<exists>s. calculate_aurora_visibility (AuroraSystem_init \<lparr>lat = 100, lon = 0\<rparr> None) 9 =
            Inr (True, s, 35))"
  using latitude_taken_as_given [of "\<lparr>lat = - 120, lon = 0\<rparr>" None 9]
    latitude_taken_as_given [of "\<lparr>lat = 100, lon = 0\<rparr>" None 9]
  by (simp add: calculate_aurora_visibility_eq selected_latitude_def)

text \<open>
  What \<^verbatim>\<open>format_timestamp\<close> does on every argument.  On text the fallback holds: a tag
  on which the parser or the printing of the parsed date raises is returned as it is, a
  tag that parses and prints gives the printed text, and a missing tag gives
  \<^verbatim>\<open>"Unknown"\<close>.  A \<^verbatim>\<open>str\<close> with a lone surrogate is returned as it is when no prefix of it
  matches the format, and makes the function raise \<^verbatim>\<open>UnicodeEncodeError\<close> when one does.
\<close>

lemma format_timestamp_cases:
  "(strptime w s = None \<longrightarrow> format_timestamp w (Some (Text s)) = Inr (Text s)) \<and>
   (\<forall>dt. strptime w s = Some dt \<and> strftime w dt = None \<longrightarrow>
      format_timestamp w (Some (Text s)) = Inr (Text s)) \<and>
   (\<forall>dt out. s \<noteq> ''Unknown'' \<and> strptime w s = Some dt \<and> strftime w dt = Some out \<longrightarrow>
      format_timestamp w (Some (Text s)) = Inr (Text out)) \<and>
   format_timestamp w None = Inr (Text ''Unknown'') \<and>
   (\<not> prefix_matches w s \<longrightarrow>
      format_timestamp w (Some (Surrogated s)) = Inr (Surrogated s)) \<and>
   (prefix_matches w s \<longrightarrow>
      format_timestamp w (Some (Surrogated s)) = Inl UnicodeEncodeError)"
  by (auto simp add: format_timestamp_def)

text \<open>
  C9 does not hold of the code.  The time tag \<^verbatim>\<open>2024-01-15 12:00:00\<close> followed by a lone
  surrogate (U+D800) fails to parse: its first nineteen characters match the format, so
  \<^verbatim>\<open>strptime\<close> raises \<^verbatim>\<open>unconverted data remains:\<close> with the surrogate as the rest.  The
  print of line 50, in the handler, then raises \<^verbatim>\<open>UnicodeEncodeError\<close>, and the function
  raises instead of returning the tag, against the comment of line 51 (return the
  original if it fails to parse).  The same function returns the tag the feed sends, with
  milliseconds, unchanged.
\<close>

theorem format_timestamp_raises_in_handler:
  "format_timestamp
     ((steady_world 9 (\<lambda>n. 0) True)
        \<lparr>prefix_matches := (\<lambda>s. take 19 s = ''2024-01-15 12:00:00'')\<rparr>)
     (Some (Surrogated (''2024-01-15 12:00:00'' @ [CHR 0xED, CHR 0xA0, CHR 0x80]))) =
     Inl UnicodeEncodeError \<and>
   format_timestamp
     ((steady_world 9 (\<lambda>n. 0) True)
        \<lparr>prefix_matches := (\<lambda>s. take 19 s = ''2024-01-15 12:00:00'')\<rparr>)
     (Some (Text ''2024-01-15 12:00:00.000'')) = Inr (Text ''2024-01-15 12:00:00.000'')"
  by (simp add: format_timestamp_def steady_world_def)

lemma map_saved_cases:
  "map_saved self w = [] \<and> \<not> render_ok w (renders w) \<or>
   (\<exists>kp ts v b. map_saved self w = [MapSaved (renders w) kp ts v b] \<and> render_ok w (renders w))"
  by (simp add: map_saved_def split: option.splits)

lemma send_daily_report_email_eq:
  assumes cfg: "email_config self = Some cfg"
  shows "send_daily_report_email self w =
     (if render_ok w (renders w)
      then (Inr (smtp_ok w (smtp_calls w)),
            w\<lparr>kp_calls := Suc (Suc (kp_calls w)), renders := Suc (renders w),
              smtp_calls := Suc (smtp_calls w),
              events := events w @ map_saved self (w\<lparr>kp_calls := Suc (kp_calls w)\<rparr>) @
                        [SmtpAttempt DailyReportMail (smtp_ok w (smtp_calls w))]\<rparr>)
      else (Inr False,
            w\<lparr>kp_calls := Suc (Suc (kp_calls w)), renders := Suc (renders w),
              events := events w @ map_saved self (w\<lparr>kp_calls := Suc (kp_calls w)\<rparr>)\<rparr>))"
proof (cases "kp_feed w (kp_calls w)")
  case None
  with cfg show ?thesis
    by (simp add: send_daily_report_email_def get_kp_index_def calculate_aurora_visibility_eq
        format_timestamp_text
        create_aurora_map_eq smtp_block_def emit_def Let_def)
next
  case (Some r)
  with cfg show ?thesis
    by (cases r) (simp add: send_daily_report_email_def get_kp_index_def format_timestamp_text
        calculate_aurora_visibility_eq create_aurora_map_eq smtp_block_def emit_def Let_def)
qed

text \<open>
  C8, as stated, fails without mail settings: the daily report then returns \<^verbatim>\<open>False\<close> at
  its first statement, without fetching the index, drawing a map or attempting a mail.
\<close>

theorem daily_report_skipped_without_mail_settings:
  "send_daily_report_email (AuroraSystem_init east_peoria None) (steady_world 9 (\<lambda>n. 1000) True) =
     (Inr False, (steady_world 9 (\<lambda>n. 1000) True)\<lparr>events := [EmailSkipped DailyReportMail]\<rparr>) \<and>
   renders (snd (send_daily_report_email (AuroraSystem_init east_peoria None)
                   (steady_world 9 (\<lambda>n. 1000) True))) = 0 \<and>
   smtp_calls (snd (send_daily_report_email (AuroraSystem_init east_peoria None)
                   (steady_world 9 (\<lambda>n. 1000) True))) = 0"
  by (simp add: send_daily_report_email_def emit_def AuroraSystem_init_def steady_world_def)

text \<open>
  C8 (amended): with mail settings present (with their five keys), the daily report draws
  the map and, when the drawing succeeds, attempts to send the summary message, returning
  the outcome of the attempt; when the drawing raises it returns \<^verbatim>\<open>False\<close> with no mail
  attempted.  Without mail settings it returns \<^verbatim>\<open>False\<close> without drawing or sending.  In
  every case the result is the same for every threshold, cooldown and last alert time of
  the system, and the function returns no system: it neither reads nor changes
  \<open>last_alert_time\<close>.
\<close>

theorem daily_report_ignores_alert_state:
  "(email_config self = Some cfg \<and> render_ok w (renders w) \<longrightarrow>
      (\<exists>kp ts v b. send_daily_report_email self w =
         (Inr (smtp_ok w (smtp_calls w)),
          w\<lparr>kp_calls := Suc (Suc (kp_calls w)), renders := Suc (renders w),
            smtp_calls := Suc (smtp_calls w),
            events := events w @ [MapSaved (renders w) kp ts v b,
                                  SmtpAttempt DailyReportMail (smtp_ok w (smtp_calls w))]\<rparr>))) \<and>
   (email_config self = Some cfg \<and> \<not> render_ok w (renders w) \<longrightarrow>
      send_daily_report_email self w =
        (Inr False, w\<lparr>kp_calls := Suc (Suc (kp_calls w)), renders := Suc (renders w)\<rparr>)) \<and>
   (email_config self = None \<longrightarrow>
      send_daily_report_email self w =
        (Inr False, w\<lparr>events := events w @ [EmailSkipped DailyReportMail]\<rparr>)) \<and>
   send_daily_report_email (self\<lparr>kp_threshold := k, last_alert_time := l, alert_cooldown := c\<rparr>) w =
     send_daily_report_email self w"
proof (intro conjI impI)
  assume a: "email_config self = Some cfg \<and> render_ok w (renders w)"
  then have "render_ok (w\<lparr>kp_calls := Suc (kp_calls w)\<rparr>) (renders (w\<lparr>kp_calls := Suc (kp_calls w)\<rparr>))"
    by simp
  with map_saved_cases [of self "w\<lparr>kp_calls := Suc (kp_calls w)\<rparr>"]
  obtain kp ts v b where
    "map_saved self (w\<lparr>kp_calls := Suc (kp_calls w)\<rparr>) = [MapSaved (renders w) kp ts v b]"
    by auto
  with a show "\<exists>kp ts v b. send_daily_report_email self w =
         (Inr (smtp_ok w (smtp_calls w)),
          w\<lparr>kp_calls := Suc (Suc (kp_calls w)), renders := Suc (renders w),
            smtp_calls := Suc (smtp_calls w),
            events := events w @ [MapSaved (renders w) kp ts v b,
                                  SmtpAttempt DailyReportMail (smtp_ok w (smtp_calls w))]\<rparr>)"
    by (simp add: send_daily_report_email_eq) blast
next
  assume a: "email_config self = Some cfg \<and> \<not> render_ok w (renders w)"
  then have "map_saved self (w\<lparr>kp_calls := Suc (kp_calls w)\<rparr>) = []"
    by (simp add: map_saved_def)
  with a show "send_daily_report_email self w =
        (Inr False, w\<lparr>kp_calls := Suc (Suc (kp_calls w)), renders := Suc (renders w)\<rparr>)"
    by (simp add: send_daily_report_email_eq)
next
  assume "email_config self = None"
  then show "send_daily_report_email self w =
        (Inr False, w\<lparr>events := events w @ [EmailSkipped DailyReportMail]\<rparr>)"
    by (simp add: send_daily_report_email_def emit_def)
next
  show "send_daily_report_email (self\<lparr>kp_threshold := k, last_alert_time := l, alert_cooldown := c\<rparr>) w =
     send_daily_report_email self w"
  proof (cases "email_config self")
    case None
    then show ?thesis
      by (simp add: send_daily_report_email_def)
  next
    case (Some cfg')
    have m: "map_saved (self\<lparr>kp_threshold := k, last_alert_time := l, alert_cooldown := c\<rparr>)
               (w\<lparr>kp_calls := Suc (kp_calls w)\<rparr>) =
             map_saved self (w\<lparr>kp_calls := Suc (kp_calls w)\<rparr>)"
      by (rule map_saved_frame) simp_all
    from Some show ?thesis
      by (simp add: send_daily_report_email_eq [where cfg = cfg'] m)
  qed
qed

text \<open>
  The theorem for a system inside its cooldown (last alert at 1000, clock at 1001) and an
  index of 1, below the threshold: the map is drawn and the report is sent; and when the
  drawing raises, nothing is sent.
\<close>

theorem daily_report_ignores_alert_state_witness:
  "send_daily_report_email
     ((AuroraSystem_init east_peoria (Some example_mail))\<lparr>last_alert_time := Some 1000\<rparr>)
     (steady_world 1 (\<lambda>n. 1001) True) =
   (Inr True,
    (steady_world 1 (\<lambda>n. 1001) True)
      \<lparr>kp_calls := 2, renders := 1, smtp_calls := 1,
       events := [MapSaved 0 1 ''2024-01-15 12:00:00.000'' False 75,
                  SmtpAttempt DailyReportMail True]\<rparr>) \<and>
   send_daily_report_email
     ((AuroraSystem_init east_peoria (Some example_mail))\<lparr>last_alert_time := Some 1000\<rparr>)
     ((steady_world 1 (\<lambda>n. 1001) True)\<lparr>render_ok := (\<lambda>n. False)\<rparr>) =
   (Inr False,
    (steady_world 1 (\<lambda>n. 1001) True)
      \<lparr>render_ok := (\<lambda>n. False), kp_calls := 2, renders := 1\<rparr>)"
  using daily_report_ignores_alert_state
    [of "(AuroraSystem_init east_peoria (Some example_mail))\<lparr>last_alert_time := Some 1000\<rparr>"
        example_mail "steady_world 1 (\<lambda>n. 1001) True"]
    daily_report_ignores_alert_state
    [of "(AuroraSystem_init east_peoria (Some example_mail))\<lparr>last_alert_time := Some 1000\<rparr>"
        example_mail "(steady_world 1 (\<lambda>n. 1001) True)\<lparr>render_ok := (\<lambda>n. False)\<rparr>"]
  by (simp add: send_daily_report_email_eq map_saved_def formatted_text_def
      steady_world_def AuroraSystem_init_def east_peoria_def selected_latitude_def)

lemma alert_cycle_without_mail_settings:
  assumes none: "email_config self = None"
    and alert: "cycle_decision self w = Some Alert"
  shows "renders (snd (snd (check_aurora_conditions self w))) = Suc (renders w) \<and>
     smtp_calls (snd (snd (check_aurora_conditions self w))) = smtp_calls w \<and>
     (\<forall>k ok. SmtpAttempt k ok \<notin>
        set (cycle_events w (snd (snd (check_aurora_conditions self w))))) \<and>
     (render_ok w (renders w) \<longrightarrow>
        (\<exists>kp ts v b. MapSaved (renders w) kp ts v b \<in>
           set (cycle_events w (snd (snd (check_aurora_conditions self w))))))"
proof (cases rule: check_cases [where w = w and self = self])
  case no_data
  with alert show ?thesis by (simp add: cycle_decision_eq)
next
  case (report kp ts)
  with alert show ?thesis by (simp add: cycle_decision_eq)
next
  case (blocked kp ts t)
  with alert show ?thesis by (simp add: cycle_decision_eq)
next
  case (first kp ts)
  from map_saved_cases [of self "w\<lparr>kp_calls := Suc (kp_calls w)\<rparr>"] none
  show ?thesis
    by (auto simp add: check_first_alert [OF first] cycle_events_def alert_mail_def)
next
  case (again kp ts t)
  from map_saved_cases [of self "w\<lparr>kp_calls := Suc (kp_calls w)\<rparr>"] none
  show ?thesis
    by (auto simp add: check_repeat_alert [OF again] cycle_events_def alert_mail_def)
qed

text \<open>
  C10: without mail settings each of the three senders returns \<^verbatim>\<open>False\<close> and only prints
  that it skips the mail: no delivery is attempted.  A check that decides \<open>Alert\<close> still
  records a clock reading as \<open>last_alert_time\<close> and still draws the map (a \<open>MapSaved\<close>
  event whenever the drawing succeeds), with no mail attempt among its events.  The
  decision and the recorded alert time are the same whatever the mail settings are.
\<close>

theorem senders_skip_without_mail_settings:
  "(email_config self = None \<longrightarrow>
      send_email_alert self kp info map_file w =
        (False, w\<lparr>events := events w @ [EmailSkipped AlertMail]\<rparr>) \<and>
      send_daily_report_email self w =
        (Inr False, w\<lparr>events := events w @ [EmailSkipped DailyReportMail]\<rparr>) \<and>
      send_startup_email self w =
        (False, w\<lparr>events := events w @ [EmailSkipped StartupMail]\<rparr>) \<and>
      (cycle_decision self w = Some Alert \<longrightarrow>
         (\<exists>n. last_alert_time (fst (snd (check_aurora_conditions self w))) = Some (clock w n)) \<and>
         renders (snd (snd (check_aurora_conditions self w))) = Suc (renders w) \<and>
         smtp_calls (snd (snd (check_aurora_conditions self w))) = smtp_calls w \<and>
         (\<forall>k ok. SmtpAttempt k ok \<notin>
            set (cycle_events w (snd (snd (check_aurora_conditions self w))))) \<and>
         (render_ok w (renders w) \<longrightarrow>
            (\<exists>kp ts v b. MapSaved (renders w) kp ts v b \<in>
               set (cycle_events w (snd (snd (check_aurora_conditions self w)))))))) \<and>
   cycle_decision (self\<lparr>email_config := c\<rparr>) w = cycle_decision self w \<and>
   last_alert_time (fst (snd (check_aurora_conditions (self\<lparr>email_config := c\<rparr>) w))) =
     last_alert_time (fst (snd (check_aurora_conditions self w)))"
proof (intro conjI impI)
  assume "email_config self = None"
  then show "send_email_alert self kp info map_file w =
        (False, w\<lparr>events := events w @ [EmailSkipped AlertMail]\<rparr>)"
    by (simp add: send_email_alert_def emit_def)
next
  assume "email_config self = None"
  then show "send_daily_report_email self w =
        (Inr False, w\<lparr>events := events w @ [EmailSkipped DailyReportMail]\<rparr>)"
    by (simp add: send_daily_report_email_def emit_def)
next
  assume "email_config self = None"
  then show "send_startup_email self w =
        (False, w\<lparr>events := events w @ [EmailSkipped StartupMail]\<rparr>)"
    by (simp add: send_startup_email_def emit_def)
next
  assume "cycle_decision self w = Some Alert"
  then show "\<exists>n. last_alert_time (fst (snd (check_aurora_conditions self w))) = Some (clock w n)"
    by (simp add: check_state) blast
next
  assume a: "email_config self = None" "cycle_decision self w = Some Alert"
  note r = alert_cycle_without_mail_settings [OF a]
  from r show "renders (snd (snd (check_aurora_conditions self w))) = Suc (renders w)"
    by blast
  from r show "smtp_calls (snd (snd (check_aurora_conditions self w))) = smtp_calls w"
    by blast
  from r show "\<forall>k ok. SmtpAttempt k ok \<notin>
            set (cycle_events w (snd (snd (check_aurora_conditions self w))))"
    by blast
  assume "render_ok w (renders w)"
  with r show "\<exists>kp ts v b. MapSaved (renders w) kp ts v b \<in>
               set (cycle_events w (snd (snd (check_aurora_conditions self w))))"
    by blast
next
  show "cycle_decision (self\<lparr>email_config := c\<rparr>) w = cycle_decision self w"
    by (simp add: cycle_decision_eq split: option.splits)
next
  show "last_alert_time (fst (snd (check_aurora_conditions (self\<lparr>email_config := c\<rparr>) w))) =
     last_alert_time (fst (snd (check_aurora_conditions self w)))"
    by (simp add: check_state cycle_decision_eq split: option.splits Decision.splits)
qed

text \<open>The theorem without mail settings at index 9, first cycle, clock at 1000.\<close>

theorem senders_skip_without_mail_settings_witness:
  "send_email_alert (AuroraSystem_init east_peoria None) 9
     (''Kp=9.0, Visible south to 35'' @ [CHR 0xC2, CHR 0xB0] @ ''N'') 0
     (steady_world 9 (\<lambda>n. 1000 + of_nat n) True) =
     (False, (steady_world 9 (\<lambda>n. 1000 + of_nat n) True)
               \<lparr>events := [EmailSkipped AlertMail]\<rparr>) \<and>
   send_daily_report_email (AuroraSystem_init east_peoria None)
     (steady_world 9 (\<lambda>n. 1000 + of_nat n) True) =
     (Inr False, (steady_world 9 (\<lambda>n. 1000 + of_nat n) True)
               \<lparr>events := [EmailSkipped DailyReportMail]\<rparr>) \<and>
   send_startup_email (AuroraSystem_init east_peoria None)
     (steady_world 9 (\<lambda>n. 1000 + of_nat n) True) =
     (False, (steady_world 9 (\<lambda>n. 1000 + of_nat n) True)
               \<lparr>events := [EmailSkipped StartupMail]\<rparr>) \<and>
   check_aurora_conditions (AuroraSystem_init east_peoria None)
     (steady_world 9 (\<lambda>n. 1000 + of_nat n) True) =
     (Inr (), (AuroraSystem_init east_peoria None)\<lparr>last_alert_time := Some 1000\<rparr>,
      (steady_world 9 (\<lambda>n. 1000 + of_nat n) True)
        \<lparr>kp_calls := 2, clock_calls := 1, renders := 1,
         events := [ConsoleAlert 9 (''Kp=9.0, Visible south to 35'' @ [CHR 0xC2, CHR 0xB0] @ ''N''),
                    MapSaved 0 9 ''2024-01-15 12:00:00.000'' True 35]\<rparr>)"
  using senders_skip_without_mail_settings
    [of "AuroraSystem_init east_peoria None" 9
        "''Kp=9.0, Visible south to 35'' @ [CHR 0xC2, CHR 0xB0] @ ''N''" 0
        "steady_world 9 (\<lambda>n. 1000 + of_nat n) True" None]
  by (simp add: check_first_alert [where kp = 9 and ts = "Some ''2024-01-15 12:00:00.000''"]
      send_email_alert_def send_daily_report_email_def send_startup_email_def emit_def
      cycle_result_def alert_mail_def map_saved_def formatted_text_def
      steady_world_def AuroraSystem_init_def east_peoria_def selected_latitude_def
      status_text_def fmt_1f_def round_half_even_def str_int_def str_nat.simps)

end
